theory Spec2Isabelle
  imports Main "HOL-Library.Sublist" "HOL-Library.Word"
begin

section \<open>Exceptions\<close>

text \<open>
  The exception classes that \<open>main.py\<close> names in its \<open>except\<close> clauses, each carrying the
  text that \<open>str(e)\<close> gives. \<open>PermissionError\<close> and \<open>IsADirectoryError\<close> are the other
  ways in which the built-in \<open>open\<close> fails; \<open>OtherError\<close> stands for any further subclass
  of \<open>Exception\<close> (for instance \<open>UnicodeDecodeError\<close>, ruamel's \<open>ConstructorError\<close>,
  jsonschema's \<open>SchemaError\<close>). \<open>SystemExit\<close> is not among them: it derives from
  \<open>BaseException\<close> and is modelled apart, in \<open>raised\<close>.
\<close>

datatype exc =
    FileNotFoundError string
  | PermissionError string
  | IsADirectoryError string
  | JSONDecodeError string
  | ParserError string
  | ScannerError string
  | ValidationError string
  | ValueError string
  | OtherError string

section \<open>The type resolver: \<open>determine_file_type\<close>\<close>

subsection \<open>\<open>str.lower\<close>\<close>

text \<open>
  A path is a \<open>string\<close>, a list of code points below 256. On these \<open>str.lower\<close> maps
  \<open>A\<close>..\<open>Z\<close> and the upper-case letters of Latin-1 (192..222 without the multiplication
  sign 215) to the code point 32 above, and leaves every other character alone.
\<close>

definition lower_char :: "char \<Rightarrow> char" where
  "lower_char c =
     (let n = (of_char c :: nat)
      in if (65 \<le> n \<and> n \<le> 90) \<or> (192 \<le> n \<and> n \<le> 222 \<and> n \<noteq> 215)
         then char_of (n + 32) else c)"

definition lower :: "string \<Rightarrow> string" where
  "lower s = map lower_char s"

subsection \<open>\<open>os.path.splitext\<close> (POSIX)\<close>

text \<open>
  \<open>str.rfind\<close> for a single character: the highest index at which \<open>c\<close> occurs in \<open>p\<close>,
  or \<open>-1\<close>. \<open>rfind_below p c n\<close> scans the indices below \<open>n\<close> downwards.
\<close>

fun rfind_below :: "string \<Rightarrow> char \<Rightarrow> nat \<Rightarrow> int" where
  "rfind_below p c 0 = -1"
| "rfind_below p c (Suc i) = (if p ! i = c then int i else rfind_below p c i)"

definition rfind :: "string \<Rightarrow> char \<Rightarrow> int" where
  "rfind p c = rfind_below p c (length p)"

text \<open>The slice \<open>p[i:j]\<close> for bounds that are not negative, the only ones \<open>splitext\<close> uses.\<close>

definition slice :: "string \<Rightarrow> int \<Rightarrow> int \<Rightarrow> string" where
  "slice p i j = take (nat (j - i)) (drop (nat i) p)"

text \<open>
  \<open>posixpath.splitext(p)\<close> is \<open>genericpath._splitext(p, '/', None, '.')\<close>:
  \<^verbatim>\<open>
    sepIndex = p.rfind(sep)
    dotIndex = p.rfind(extsep)
    if dotIndex > sepIndex:
        # skip all leading dots
        filenameIndex = sepIndex + 1
        while filenameIndex < dotIndex:
            if p[filenameIndex:filenameIndex+1] != extsep:
                return p[:dotIndex], p[dotIndex:]
            filenameIndex += 1
    return p, p[:0]
  \<close>
  \<open>splitext_loop\<close> is the \<open>while\<close> loop together with the final \<open>return\<close>.
\<close>

function splitext_loop :: "string \<Rightarrow> int \<Rightarrow> int \<Rightarrow> string \<times> string" where
  "splitext_loop p filenameIndex dotIndex =
     (if filenameIndex < dotIndex then
        (if slice p filenameIndex (filenameIndex + 1) \<noteq> ''.''
         then (slice p 0 dotIndex, drop (nat dotIndex) p)
         else splitext_loop p (filenameIndex + 1) dotIndex)
      else (p, []))"
  by pat_completeness auto
termination
  by (relation "measure (\<lambda>(p, i, d). nat (d - i))") auto

definition splitext :: "string \<Rightarrow> string \<times> string" where
  "splitext p =
     (let sepIndex = rfind p CHR ''/'';
          dotIndex = rfind p CHR ''.''
      in if dotIndex > sepIndex then splitext_loop p (sepIndex + 1) dotIndex
         else (p, []))"

subsection \<open>\<open>determine_file_type\<close>\<close>

text \<open>
  \<open>if arg_type:\<close> tests the truth value of an optional string: \<open>None\<close> and the empty
  string are false.
\<close>

definition truthy :: "string option \<Rightarrow> bool" where
  "truthy a = (case a of None \<Rightarrow> False | Some s \<Rightarrow> s \<noteq> [])"

definition cannot_determine :: "string \<Rightarrow> string" where
  "cannot_determine file_path =
     ''Could not determine file type for '' @ file_path
       @ ''.  Specify with --config_type or --schema_type.''"

definition determine_file_type :: "string \<Rightarrow> string option \<Rightarrow> exc + string" where
  "determine_file_type file_path arg_type =
     (if truthy arg_type then Inr (the arg_type)
      else
        (let ext = lower (snd (splitext file_path))
         in if ext \<in> set [''.json''] then Inr ''json''
            else if ext \<in> set [''.yaml'', ''.yml''] then Inr ''yaml''
            else Inl (ValueError (cannot_determine file_path))))"

text \<open>
  The last component of a path, read from its end up to the last \<open>/\<close>; \<open>named stem\<close> says
  that this component of \<open>stem\<close> has a character other than a dot, so that a suffix
  appended to \<open>stem\<close> is not the leading part of a dotfile's name.
\<close>

definition last_component :: "string \<Rightarrow> string" where
  "last_component p = rev (takeWhile (\<lambda>c. c \<noteq> CHR ''/'') (rev p))"

definition named :: "string \<Rightarrow> bool" where
  "named stem = (\<exists>c \<in> set (last_component stem). c \<noteq> CHR ''.'')"

section \<open>The document loaders and the schema validator\<close>

subsection \<open>Documents\<close>

text \<open>
  The values that \<open>json.load\<close> and ruamel's loaders build: \<open>None\<close>, booleans, integers,
  floats (by their 64 bits), strings, lists and dictionaries. \<open>PyObject cls state\<close> is an
  instance of any other class, which a YAML tag can ask a loader to construct.
  \<open>main.py\<close> never looks inside a document: it hands it from a loader to the validator.
\<close>

datatype pyval =
    PyNone
  | PyBool bool
  | PyInt int
  | PyFloat "64 word"
  | PyStr string
  | PyList "pyval list"
  | PyDict "(pyval \<times> pyval) list"
  | PyObject string pyval

subsection \<open>The libraries and the file system\<close>

text \<open>The \<open>typ\<close> argument of \<open>ruamel.yaml.YAML\<close>.\<close>

datatype yaml_typ = Rt | Safe | Unsafe | Base

text \<open>
  What \<open>main.py\<close> calls but does not define is a parameter of the model:
  \<^item> \<open>open_file path\<close>: the text of the file, or the exception that \<open>open(path, 'r')\<close> raises;
  \<^item> \<open>json_parser text\<close>: what \<open>json.load\<close> returns or raises on a text that is not empty;
  \<^item> \<open>yaml_parser typ text\<close>: what \<open>YAML(typ=typ).load\<close> returns or raises on a text that is
    not empty;
  \<^item> \<open>schema_validate instance schema\<close>: the exception that \<open>jsonschema.validate\<close> raises,
    or \<open>None\<close> when it returns;
  \<^item> \<open>arg_parser argv\<close>: the namespace that \<open>parser.parse_args()\<close> returns on the command
    line \<open>argv\<close> (\<open>sys.argv[1:]\<close>), or the status with which it exits, on a command line
    that is none of those of \<open>parse_args\<close> below.
  Every exception carries the text of \<open>str(e)\<close>. Errors while reading an open file are not
  modelled.
\<close>

text \<open>The parsed command line (the namespace \<open>args\<close>), without \<open>log_level\<close>.\<close>

record args =
  config_file :: string
  schema_file :: string
  config_type :: "string option"
  schema_type :: "string option"

record env =
  open_file :: "string \<Rightarrow> exc + string"
  json_parser :: "string \<Rightarrow> exc + pyval"
  yaml_parser :: "yaml_typ \<Rightarrow> string \<Rightarrow> exc + pyval"
  schema_validate :: "pyval \<Rightarrow> pyval \<Rightarrow> exc option"
  arg_parser :: "string list \<Rightarrow> int + args"

text \<open>
  On the empty text the two libraries do not depend on anything else: \<open>json.load\<close> raises
  \<open>JSONDecodeError\<close> (\<open>JSONDecoder.raw_decode\<close> finds no value at index 0), and a ruamel
  loader returns \<open>None\<close> (the stream holds no document).
\<close>

definition json_load :: "env \<Rightarrow> string \<Rightarrow> exc + pyval" where
  "json_load e text =
     (if text = [] then Inl (JSONDecodeError ''Expecting value: line 1 column 1 (char 0)'')
      else json_parser e text)"

definition yaml_load :: "env \<Rightarrow> yaml_typ \<Rightarrow> string \<Rightarrow> exc + pyval" where
  "yaml_load e typ text = (if text = [] then Inr PyNone else yaml_parser e typ text)"

subsection \<open>Logging and control\<close>

datatype level = ERROR | INFO

text \<open>
  The places of \<open>main\<close> that call one of the four functions of the program: lines 141, 147,
  154/156, 162/164 and 170.
\<close>

datatype site = ResolveConfigType | ResolveSchemaType | LoadConfig | LoadSchema | Validate

text \<open>
  What a run does, in order: it enters a call site of \<open>main\<close>, or it hands a record to
  \<open>logging\<close> (whether the record is printed depends on \<open>--log_level\<close>, which is not modelled).
\<close>

datatype event = Enter site | Log level string

text \<open>
  \<open>SystemExit code context\<close> is what \<open>sys.exit(code)\<close> raises; \<open>context\<close> is the exception
  being handled at that moment (\<open>__context__\<close>), if any. It is not an \<open>Exception\<close>, so that
  \<open>except Exception\<close> lets it through.
\<close>

datatype raised = Exc exc | SystemExit int "exc option"

type_synonym 'a result = "event list \<times> (exc + 'a)"

type_synonym 'a comp = "event list \<times> (raised + 'a)"

definition str :: "exc \<Rightarrow> string" where
  "str x = (case x of
       FileNotFoundError m \<Rightarrow> m | PermissionError m \<Rightarrow> m | IsADirectoryError m \<Rightarrow> m
     | JSONDecodeError m \<Rightarrow> m | ParserError m \<Rightarrow> m | ScannerError m \<Rightarrow> m
     | ValidationError m \<Rightarrow> m | ValueError m \<Rightarrow> m | OtherError m \<Rightarrow> m)"

subsection \<open>\<open>load_json\<close>, \<open>load_yaml\<close>, \<open>validate_config\<close>\<close>

text \<open>
  The body of the \<open>try\<close> runs \<open>open\<close> and then the parser; the \<open>except\<close> clauses log and
  raise again; any other exception leaves the function as it is.
\<close>

definition load_json :: "env \<Rightarrow> string \<Rightarrow> pyval result" where
  "load_json e file_path =
     (case (case open_file e file_path of Inl x \<Rightarrow> Inl x | Inr f \<Rightarrow> json_load e f) of
        Inr data \<Rightarrow> ([], Inr data)
      | Inl (FileNotFoundError m) \<Rightarrow>
          ([Log ERROR (''File not found: '' @ file_path)], Inl (FileNotFoundError m))
      | Inl (JSONDecodeError m) \<Rightarrow>
          ([Log ERROR (''Invalid JSON in '' @ file_path @ '': '' @ m)], Inl (JSONDecodeError m))
      | Inl x \<Rightarrow> ([], Inl x))"

definition load_yaml :: "env \<Rightarrow> string \<Rightarrow> pyval result" where
  "load_yaml e file_path =
     (let yaml = Safe
      in case (case open_file e file_path of Inl x \<Rightarrow> Inl x | Inr f \<Rightarrow> yaml_load e yaml f) of
           Inr data \<Rightarrow> ([], Inr data)
         | Inl (FileNotFoundError m) \<Rightarrow>
             ([Log ERROR (''File not found: '' @ file_path)], Inl (FileNotFoundError m))
         | Inl (ParserError m) \<Rightarrow>
             ([Log ERROR (''Invalid YAML in '' @ file_path @ '': '' @ m)], Inl (ParserError m))
         | Inl (ScannerError m) \<Rightarrow>
             ([Log ERROR (''Invalid YAML in '' @ file_path @ '': '' @ m)], Inl (ScannerError m))
         | Inl x \<Rightarrow> ([], Inl x))"

definition validate_config :: "env \<Rightarrow> pyval \<Rightarrow> pyval \<Rightarrow> bool result" where
  "validate_config e config_data schema_data =
     (case schema_validate e config_data schema_data of
        None \<Rightarrow> ([Log INFO ''Configuration is valid according to the schema.''], Inr True)
      | Some (ValidationError m) \<Rightarrow>
          ([Log ERROR (''Configuration is invalid: '' @ m)], Inl (ValidationError m))
      | Some x \<Rightarrow> ([], Inl x))"

section \<open>The driver: \<open>main\<close>\<close>

subsection \<open>The command line\<close>

text \<open>
  \<open>parser.parse_args()\<close> for the parser of \<open>setup_argparse\<close>: two positional arguments
  \<open>config_file\<close> and \<open>schema_file\<close>, the options \<open>--config_type\<close>, \<open>--schema_type\<close> and
  \<open>--log_level\<close>, and the \<open>-h\<close>/\<open>--help\<close> that argparse adds. It returns the namespace or it
  exits (\<open>Inl\<close> the status). On three kinds of command line argparse is written out:
  \<^item> \<open>-h\<close> or \<open>--help\<close> alone: the help action prints the help and exits with status 0;
  \<^item> no argument: the two positional arguments are missing, \<open>parser.error\<close> exits with
    status 2;
  \<^item> two arguments that do not start with \<open>-\<close>: they are the two paths, and both types
    are \<open>None\<close>.
  Every other command line is left to \<open>arg_parser\<close>.
\<close>

definition positional :: "string \<Rightarrow> bool" where
  "positional s = (s = [] \<or> hd s \<noteq> CHR ''-'')"

definition parse_args :: "env \<Rightarrow> string list \<Rightarrow> int + args" where
  "parse_args e argv =
     (if argv = [''-h''] \<or> argv = [''--help''] then Inl 0
      else if argv = [] then Inl 2
      else (case argv of
          [config, schema] \<Rightarrow>
            if positional config \<and> positional schema
            then Inr \<lparr>config_file = config, schema_file = schema,
                       config_type = None, schema_type = None\<rparr>
            else arg_parser e argv
        | _ \<Rightarrow> arg_parser e argv))"

text \<open>\<open>argparse\<close> admits only these values of \<open>--config_type\<close> and \<open>--schema_type\<close>.\<close>

definition choice :: "string option \<Rightarrow> bool" where
  "choice t = (t = None \<or> t = Some ''json'' \<or> t = Some ''yaml'')"

definition wf_args :: "args \<Rightarrow> bool" where
  "wf_args a = (choice (config_type a) \<and> choice (schema_type a))"

subsection \<open>Sequencing, raising and catching\<close>

definition bind :: "'a comp \<Rightarrow> ('a \<Rightarrow> 'b comp) \<Rightarrow> 'b comp" where
  "bind m f =
     (case m of
        (es, Inl r) \<Rightarrow> (es, Inl r)
      | (es, Inr v) \<Rightarrow> (case f v of (es', r) \<Rightarrow> (es @ es', r)))"

definition log :: "level \<Rightarrow> string \<Rightarrow> unit comp" where
  "log l m = ([Log l m], Inr ())"

definition sys_exit :: "int \<Rightarrow> exc option \<Rightarrow> 'a comp" where
  "sys_exit code context = ([], Inl (SystemExit code context))"

text \<open>A call of one of the program's functions at a site of \<open>main\<close>.\<close>

definition call :: "site \<Rightarrow> 'a result \<Rightarrow> 'a comp" where
  "call s m =
     (case m of
        (es, Inl x) \<Rightarrow> (Enter s # es, Inl (Exc x))
      | (es, Inr v) \<Rightarrow> (Enter s # es, Inr v))"

text \<open>
  \<open>try: m except ...\<close>: the handler gives the clause that matches the exception, or
  \<open>None\<close> when no clause does. A \<open>SystemExit\<close> is never offered to the handler.
\<close>

definition catch :: "'a comp \<Rightarrow> (exc \<Rightarrow> 'a comp option) \<Rightarrow> 'a comp" where
  "catch m h =
     (case m of
        (es, Inl (Exc x)) \<Rightarrow>
          (case h x of None \<Rightarrow> (es, Inl (Exc x)) | Some (es', r) \<Rightarrow> (es @ es', r))
      | _ \<Rightarrow> m)"

subsection \<open>The \<open>try\<close> statement of \<open>main\<close>\<close>

text \<open>
  Each of the two inner \<open>try\<close> blocks:
  \<^verbatim>\<open>
    try:
        config_type = determine_file_type(args.config_file, args.config_type)
    except ValueError as e:
        logging.error(e)
        sys.exit(1)
  \<close>
\<close>

definition determine_or_exit :: "site \<Rightarrow> string \<Rightarrow> string option \<Rightarrow> string comp" where
  "determine_or_exit s file_path arg_type =
     catch (call s ([], determine_file_type file_path arg_type))
       (\<lambda>x. case x of
          ValueError m \<Rightarrow> Some (bind (log ERROR (str x)) (\<lambda>_. sys_exit 1 (Some x)))
        | _ \<Rightarrow> None)"

text \<open>
  Each of the two \<open>if\<close>/\<open>elif\<close>/\<open>else\<close> statements:
  \<^verbatim>\<open>
    if config_type == 'json':
        config_data = load_json(args.config_file)
    elif config_type == 'yaml':
        config_data = load_yaml(args.config_file)
    else:
        logging.error("Invalid config file type.")
        sys.exit(1)
  \<close>
\<close>

definition load_by_type :: "site \<Rightarrow> env \<Rightarrow> string \<Rightarrow> string \<Rightarrow> string \<Rightarrow> pyval comp" where
  "load_by_type s e file_type file_path invalid =
     (if file_type = ''json'' then call s (load_json e file_path)
      else if file_type = ''yaml'' then call s (load_yaml e file_path)
      else bind (log ERROR invalid) (\<lambda>_. sys_exit 1 None))"

text \<open>The \<open>except\<close> clauses of the outer \<open>try\<close>, lines 174 to 182.\<close>

definition outer_handler :: "exc \<Rightarrow> unit comp option" where
  "outer_handler x =
     (case x of
        FileNotFoundError m \<Rightarrow> Some (sys_exit 1 (Some x))
      | JSONDecodeError m \<Rightarrow> Some (sys_exit 1 (Some x))
      | ParserError m \<Rightarrow> Some (sys_exit 1 (Some x))
      | ScannerError m \<Rightarrow> Some (sys_exit 1 (Some x))
      | ValidationError m \<Rightarrow> Some (sys_exit 1 (Some x))
      | _ \<Rightarrow> Some (bind (log ERROR (''An unexpected error occurred: '' @ str x))
                      (\<lambda>_. sys_exit 1 (Some x))))"

text \<open>
  \<open>main e a\<close> is the outer \<open>try\<close> statement of \<open>main\<close>, lines 138 to 182, run on the
  namespace \<open>a\<close> that \<open>parse_args\<close> returned.
\<close>

definition main :: "env \<Rightarrow> args \<Rightarrow> unit comp" where
  "main e a =
     catch
       (bind (determine_or_exit ResolveConfigType (config_file a) (config_type a))
          (\<lambda>config_type.
        bind (determine_or_exit ResolveSchemaType (schema_file a) (schema_type a))
          (\<lambda>schema_type.
        bind (load_by_type LoadConfig e config_type (config_file a) ''Invalid config file type.'')
          (\<lambda>config_data.
        bind (load_by_type LoadSchema e schema_type (schema_file a) ''Invalid schema file type.'')
          (\<lambda>schema_data.
        bind (call Validate (validate_config e config_data schema_data))
          (\<lambda>_.
        bind (log INFO ''Validation successful.'')
          (\<lambda>_. sys_exit 0 None)))))))
       outer_handler"

text \<open>
  The whole of \<open>main\<close>, lines 133 to 182, on the command line \<open>argv\<close>: \<open>parse_args\<close> is
  called before the \<open>try\<close> statement, so that its \<open>SystemExit\<close> ends the run with nothing
  logged and no step entered. \<open>setLevel(args.log_level)\<close> is not modelled: the level is one
  of the names that \<open>choices\<close> admits.
\<close>

definition main_from_argv :: "env \<Rightarrow> string list \<Rightarrow> unit comp" where
  "main_from_argv e argv =
     (case parse_args e argv of
        Inl code \<Rightarrow> sys_exit code None
      | Inr a \<Rightarrow> main e a)"

text \<open>
  The exit status of the process: the code of the \<open>SystemExit\<close>; \<open>1\<close> after an exception
  that nothing caught; \<open>0\<close> when \<open>main\<close> returns.
\<close>

definition exit_status :: "'a comp \<Rightarrow> int" where
  "exit_status r =
     (case snd r of Inl (SystemExit code _) \<Rightarrow> code | Inl (Exc _) \<Rightarrow> 1 | Inr _ \<Rightarrow> 0)"

fun sites :: "event list \<Rightarrow> site list" where
  "sites [] = []"
| "sites (Enter s # es) = s # sites es"
| "sites (Log l m # es) = sites es"

text \<open>
  \<open>loaded e t path\<close> is what the loader for the file type \<open>t\<close> returns or raises on \<open>path\<close>.
\<close>

definition loaded :: "env \<Rightarrow> string \<Rightarrow> string \<Rightarrow> exc + pyval" where
  "loaded e file_type file_path =
     (if file_type = ''json'' then snd (load_json e file_path) else snd (load_yaml e file_path))"

section \<open>Example runs\<close>

text \<open>
  A directory with a JSON configuration \<open>app.json\<close>, a YAML schema \<open>schema.yaml\<close>, an empty
  file \<open>empty\<close>, a YAML file \<open>broken.yaml\<close> that does not scan, a file \<open>secret.json\<close> that
  the user may not read, and a YAML file \<open>tagged.yaml\<close> whose only node carries a tag naming
  a Python class. The library functions are given on these texts.
\<close>

definition example_open :: "string \<Rightarrow> exc + string" where
  "example_open p =
     (if p = ''app.json'' then Inr ''[1]''
      else if p = ''schema.yaml'' then Inr ''type: array''
      else if p = ''empty'' then Inr []
      else if p = ''broken.yaml'' then Inr ''a: b: c''
      else if p = ''tagged.yaml'' then Inr ''!!python/object:builtins.object {}''
      else if p = ''secret.json''
        then Inl (PermissionError ''[Errno 13] Permission denied: secret.json'')
      else Inl (FileNotFoundError (''[Errno 2] No such file or directory: '' @ p)))"

definition example_json :: "string \<Rightarrow> exc + pyval" where
  "example_json text =
     (if text = ''[1]'' then Inr (PyList [PyInt 1])
      else Inl (JSONDecodeError ''Expecting value: line 1 column 1 (char 0)''))"

definition example_yaml :: "yaml_typ \<Rightarrow> string \<Rightarrow> exc + pyval" where
  "example_yaml typ text =
     (if text = ''[1]'' then Inr (PyList [PyInt 1])
      else if text = ''type: array'' then Inr (PyDict [(PyStr ''type'', PyStr ''array'')])
      else if text = ''!!python/object:builtins.object {}'' then
        (if typ = Unsafe then Inr (PyObject ''builtins.object'' (PyDict []))
         else Inl (OtherError ''could not determine a constructor for the tag''))
      else Inl (ScannerError ''mapping values are not allowed here''))"

definition example_validate :: "pyval \<Rightarrow> pyval \<Rightarrow> exc option" where
  "example_validate instance schema =
     (if schema = PyDict [(PyStr ''type'', PyStr ''array'')] then
        (case instance of PyList xs \<Rightarrow> None
         | _ \<Rightarrow> Some (ValidationError ''instance is not of type array''))
      else Some (OtherError ''schema is not valid''))"

text \<open>
  Of the command lines left to \<open>arg_parser\<close> the examples use none; the one given here is
  two paths followed by \<open>--config_type\<close> and its value, and every other one is taken for a
  usage error.
\<close>

definition example_argparse :: "string list \<Rightarrow> int + args" where
  "example_argparse argv =
     (case argv of
        [config, schema, opt, t] \<Rightarrow>
          if positional config \<and> positional schema \<and> opt = ''--config_type''
             \<and> (t = ''json'' \<or> t = ''yaml'')
          then Inr \<lparr>config_file = config, schema_file = schema,
                     config_type = Some t, schema_type = None\<rparr>
          else Inl 2
      | _ \<Rightarrow> Inl 2)"

definition example_env :: env where
  "example_env =
     \<lparr>open_file = example_open, json_parser = example_json,
       yaml_parser = example_yaml, schema_validate = example_validate,
       arg_parser = example_argparse\<rparr>"

definition example_args :: "string \<Rightarrow> string \<Rightarrow> args" where
  "example_args config schema =
     \<lparr>config_file = config, schema_file = schema,
       config_type = Some ''json'', schema_type = Some ''yaml''\<rparr>"

section \<open>Facts about \<open>rfind\<close> and \<open>splitext\<close>\<close>

lemma rfind_below_absent:
  "(\<forall>j. k \<le> j \<and> j < n \<longrightarrow> p ! j \<noteq> c) \<Longrightarrow> k \<le> n \<Longrightarrow> rfind_below p c n = rfind_below p c k"
proof (induction n)
  case 0
  then show ?case by simp
next
  case (Suc n)
  show ?case
  proof (cases "k = Suc n")
    case True
    then show ?thesis by simp
  next
    case False
    with Suc.prems have "k \<le> n" by simp
    moreover from Suc.prems \<open>k \<le> n\<close> have "p ! n \<noteq> c" by simp
    ultimately show ?thesis using Suc by simp
  qed
qed

lemma rfind_below_prefix:
  "n \<le> length xs \<Longrightarrow> rfind_below (xs @ ys) c n = rfind_below xs c n"
  by (induction n) (simp_all add: nth_append)

lemma rfind_below_bounds: "- 1 \<le> rfind_below p c n \<and> rfind_below p c n < int n"
  by (induction n) auto

lemma rfind_append_absent: "c \<notin> set ys \<Longrightarrow> rfind (xs @ ys) c = rfind xs c"
proof -
  assume a: "c \<notin> set ys"
  have "\<forall>j. length xs \<le> j \<and> j < length (xs @ ys) \<longrightarrow> (xs @ ys) ! j \<noteq> c"
  proof (intro allI impI)
    fix j assume j: "length xs \<le> j \<and> j < length (xs @ ys)"
    then have "(xs @ ys) ! j = ys ! (j - length xs)" by (simp add: nth_append)
    moreover from j have "j - length xs < length ys" by auto
    ultimately show "(xs @ ys) ! j \<noteq> c" using a by (metis nth_mem)
  qed
  then have "rfind_below (xs @ ys) c (length (xs @ ys)) = rfind_below (xs @ ys) c (length xs)"
    by (rule rfind_below_absent) simp
  then show ?thesis by (simp add: rfind_def rfind_below_prefix)
qed

lemma rfind_append_hit: "c \<notin> set ys \<Longrightarrow> rfind (xs @ c # ys) c = int (length xs)"
proof -
  assume a: "c \<notin> set ys"
  have "rfind (xs @ c # ys) c = rfind ((xs @ [c]) @ ys) c" by simp
  also have "\<dots> = rfind (xs @ [c]) c" using a by (rule rfind_append_absent)
  also have "\<dots> = int (length xs)" by (simp add: rfind_def)
  finally show ?thesis .
qed

lemma rfind_less_length: "rfind p c < int (length p)"
  using rfind_below_bounds [of p c "length p"] by (simp add: rfind_def)

lemma rfind_ge: "- 1 \<le> rfind p c"
  using rfind_below_bounds [of p c "length p"] by (simp add: rfind_def)

lemma slice_single: "0 \<le> i \<Longrightarrow> nat i < length p \<Longrightarrow> slice p i (i + 1) = [p ! nat i]"
  by (simp add: slice_def take_Suc_conv_app_nth hd_drop_conv_nth take_Suc)

lemma splitext_loop_found:
  "0 \<le> i \<Longrightarrow> nat d \<le> length p \<Longrightarrow> \<exists>k. i \<le> k \<and> k < d \<and> p ! nat k \<noteq> CHR ''.''
     \<Longrightarrow> splitext_loop p i d = (take (nat d) p, drop (nat d) p)"
proof (induction p i d rule: splitext_loop.induct)
  case (1 p i d)
  from "1.prems" obtain k where k: "i \<le> k" "k < d" "p ! nat k \<noteq> CHR ''.''" by blast
  then have lt: "i < d" by simp
  with "1.prems" have il: "nat i < length p" by linarith
  have sl: "slice p i (i + 1) = [p ! nat i]" using "1.prems"(1) il by (rule slice_single)
  show ?case
  proof (cases "p ! nat i = CHR ''.''")
    case True
    with k have "i \<noteq> k" by auto
    with k have "\<exists>k. i + 1 \<le> k \<and> k < d \<and> p ! nat k \<noteq> CHR ''.''" by (intro exI [of _ k]) simp
    moreover have "0 \<le> i + 1" using "1.prems"(1) by simp
    ultimately have "splitext_loop p (i + 1) d = (take (nat d) p, drop (nat d) p)"
      using "1.IH" lt sl True "1.prems"(2) by simp
    then show ?thesis using lt sl True by (subst splitext_loop.simps) simp
  next
    case False
    then show ?thesis using lt sl by (subst splitext_loop.simps) (simp add: slice_def)
  qed
qed

lemma splitext_loop_all_dots:
  "0 \<le> i \<Longrightarrow> nat d \<le> length p \<Longrightarrow> \<forall>k. i \<le> k \<and> k < d \<longrightarrow> p ! nat k = CHR ''.''
     \<Longrightarrow> splitext_loop p i d = (p, [])"
proof (induction p i d rule: splitext_loop.induct)
  case (1 p i d)
  show ?case
  proof (cases "i < d")
    case True
    with "1.prems" have il: "nat i < length p" by linarith
    have sl: "slice p i (i + 1) = [p ! nat i]" using "1.prems"(1) il by (rule slice_single)
    from True "1.prems"(3) have dot: "p ! nat i = CHR ''.''" by simp
    have "splitext_loop p (i + 1) d = (p, [])"
      using "1.IH" True sl dot "1.prems" by simp
    then show ?thesis using True sl dot by (subst splitext_loop.simps) simp
  next
    case False
    then show ?thesis by (subst splitext_loop.simps) simp
  qed
qed

lemma rfind_snoc: "rfind (xs @ [x]) c = (if x = c then int (length xs) else rfind xs c)"
  by (simp add: rfind_def rfind_below_prefix)

lemma rfind_below_hit: "0 \<le> rfind_below p c n \<Longrightarrow> p ! nat (rfind_below p c n) = c"
  by (induction n) (auto split: if_splits)

lemma rfind_hit: "0 \<le> rfind p c \<Longrightarrow> p ! nat (rfind p c) = c"
  unfolding rfind_def by (rule rfind_below_hit)

lemma last_component_drop: "last_component p = drop (nat (rfind p CHR ''/'' + 1)) p"
proof (induction p rule: rev_induct)
  case Nil
  then show ?case by (simp add: last_component_def)
next
  case (snoc x xs)
  show ?case
  proof (cases "x = CHR ''/''")
    case True
    then show ?thesis by (simp add: last_component_def rfind_snoc)
  next
    case False
    have "nat (rfind xs CHR ''/'' + 1) \<le> length xs"
      using rfind_less_length [of xs "CHR ''/''"] rfind_ge [of xs "CHR ''/''"] by linarith
    with False snoc show ?thesis by (simp add: last_component_def rfind_snoc)
  qed
qed

lemma named_index:
  assumes "named stem"
  shows "\<exists>k. rfind stem CHR ''/'' + 1 \<le> int k \<and> k < length stem \<and> stem ! k \<noteq> CHR ''.''"
proof -
  let ?n = "nat (rfind stem CHR ''/'' + 1)"
  from assms obtain c where c: "c \<in> set (drop ?n stem)" "c \<noteq> CHR ''.''"
    by (auto simp: named_def last_component_drop)
  then obtain i where i: "i < length (drop ?n stem)" "drop ?n stem ! i = c"
    by (auto simp: in_set_conv_nth)
  then have lt: "?n + i < length stem" and at: "stem ! (?n + i) = c" by auto
  have "rfind stem CHR ''/'' + 1 \<le> int (?n + i)" by linarith
  with lt at c(2) show ?thesis by blast
qed

lemma splitext_suffix:
  assumes "named stem" and "CHR ''.'' \<notin> set s" and "CHR ''/'' \<notin> set s"
  shows "splitext (stem @ CHR ''.'' # s) = (stem, CHR ''.'' # s)"
proof -
  let ?p = "stem @ CHR ''.'' # s"
  have dot: "rfind ?p CHR ''.'' = int (length stem)"
    using assms(2) by (rule rfind_append_hit)
  have sep: "rfind ?p CHR ''/'' = rfind stem CHR ''/''"
    using assms(3) by (intro rfind_append_absent) simp
  from named_index [OF assms(1)] obtain k where
    k: "rfind stem CHR ''/'' + 1 \<le> int k" "k < length stem" "stem ! k \<noteq> CHR ''.''"
    by blast
  then have "?p ! nat (int k) \<noteq> CHR ''.''" by (simp add: nth_append)
  with k have ex: "\<exists>j. rfind stem CHR ''/'' + 1 \<le> j \<and> j < int (length stem) \<and> ?p ! nat j \<noteq> CHR ''.''"
    by (intro exI [of _ "int k"]) simp
  have "splitext_loop ?p (rfind stem CHR ''/'' + 1) (int (length stem))
          = (take (nat (int (length stem))) ?p, drop (nat (int (length stem))) ?p)"
    using rfind_ge [of stem "CHR ''/''"] ex by (intro splitext_loop_found) auto
  then show ?thesis
    using rfind_less_length [of stem "CHR ''/''"] by (simp add: splitext_def dot sep)
qed

lemma splitext_only_dots:
  assumes "\<not> named stem" and "CHR ''.'' \<notin> set s" and "CHR ''/'' \<notin> set s"
  shows "splitext (stem @ CHR ''.'' # s) = (stem @ CHR ''.'' # s, [])"
proof -
  let ?p = "stem @ CHR ''.'' # s" and ?sep = "rfind stem CHR ''/''"
  have dot: "rfind ?p CHR ''.'' = int (length stem)"
    using assms(2) by (rule rfind_append_hit)
  have sep: "rfind ?p CHR ''/'' = ?sep"
    using assms(3) by (intro rfind_append_absent) simp
  have dots: "?p ! nat k = CHR ''.''" if k: "?sep + 1 \<le> k" "k < int (length stem)" for k
  proof -
    from k rfind_ge [of stem "CHR ''/''"] have
      "nat (?sep + 1) \<le> nat k" "nat k < length stem" by linarith+
    then have "stem ! nat k \<in> set (drop (nat (?sep + 1)) stem)"
      by (auto simp: in_set_conv_nth intro!: exI [of _ "nat k - nat (?sep + 1)"])
    with assms(1) have "stem ! nat k = CHR ''.''"
      by (auto simp: named_def last_component_drop)
    with \<open>nat k < length stem\<close> show ?thesis by (simp add: nth_append)
  qed
  have "splitext_loop ?p (?sep + 1) (int (length stem)) = (?p, [])"
    using rfind_ge [of stem "CHR ''/''"] dots by (intro splitext_loop_all_dots) auto
  then show ?thesis
    using rfind_less_length [of stem "CHR ''/''"] by (simp add: splitext_def dot sep)
qed

lemma splitext_no_dot:
  assumes "CHR ''.'' \<notin> set (last_component p)"
  shows "splitext p = (p, [])"
proof -
  let ?d = "rfind p CHR ''.''" and ?s = "rfind p CHR ''/''"
  have "\<not> ?d > ?s"
  proof
    assume gt: "?d > ?s"
    with rfind_ge [of p "CHR ''/''"] have nn: "0 \<le> ?d" by linarith
    then have hit: "p ! nat ?d = CHR ''.''" by (rule rfind_hit)
    from gt nn rfind_less_length [of p "CHR ''.''"]
    have "nat (?s + 1) \<le> nat ?d" "nat ?d < length p" by linarith+
    then have "p ! nat ?d \<in> set (drop (nat (?s + 1)) p)"
      by (auto simp: in_set_conv_nth intro!: exI [of _ "nat ?d - nat (?s + 1)"])
    with hit assms show False by (simp add: last_component_drop)
  qed
  then show ?thesis by (simp add: splitext_def)
qed

lemma splitext_dotfile:
  assumes "d = [] \<or> last d = CHR ''/''" and "CHR ''.'' \<notin> set name" and "CHR ''/'' \<notin> set name"
  shows "splitext (d @ CHR ''.'' # name) = (d @ CHR ''.'' # name, [])"
proof -
  let ?p = "d @ CHR ''.'' # name"
  have dot: "rfind ?p CHR ''.'' = int (length d)"
    using assms(2) by (rule rfind_append_hit)
  have "rfind ?p CHR ''/'' = rfind d CHR ''/''"
    using assms(3) by (intro rfind_append_absent) simp
  also have "\<dots> = int (length d) - 1"
  proof (cases "d = []")
    case True
    then show ?thesis by (simp add: rfind_def)
  next
    case False
    with assms(1) have "d = butlast d @ [CHR ''/'']" by (metis append_butlast_last_id)
    then have "rfind d CHR ''/'' = rfind (butlast d @ [CHR ''/'']) CHR ''/''" by simp
    also have "\<dots> = int (length (butlast d))" by (simp add: rfind_snoc)
    finally show ?thesis using False by (simp add: of_nat_diff Suc_leI)
  qed
  finally have sep: "rfind ?p CHR ''/'' = int (length d) - 1" .
  show ?thesis
    unfolding splitext_def dot sep by (subst splitext_loop.simps) simp
qed

lemma lower_char_dot: "lower_char c = CHR ''.'' \<longleftrightarrow> c = CHR ''.''"
proof
  assume a: "lower_char c = CHR ''.''"
  let ?n = "of_char c :: nat"
  show "c = CHR ''.''"
  proof (rule ccontr)
    assume n: "c \<noteq> CHR ''.''"
    have up: "(65 \<le> ?n \<and> ?n \<le> 90) \<or> (192 \<le> ?n \<and> ?n \<le> 222 \<and> ?n \<noteq> 215)"
    proof (rule ccontr)
      assume "\<not> ?thesis"
      then have "lower_char c = c" unfolding lower_char_def Let_def by (rule if_not_P)
      with a n show False by simp
    qed
    then have "lower_char c = char_of (?n + 32)" unfolding lower_char_def Let_def by (rule if_P)
    with a have "char_of (?n + 32) = CHR ''.''" by simp
    then have "take_bit 8 (?n + 32) = (of_char CHR ''.'' :: nat)" by (simp only: char_of_eq_iff)
    then have m: "(?n + 32) mod 256 = 46" by (simp add: take_bit_eq_mod)
    from up have "?n + 32 < 256" by linarith
    then have "(?n + 32) mod 256 = ?n + 32" by (rule mod_less)
    with m have "?n + 32 = 46" by simp
    with up show False by linarith
  qed
next
  assume "c = CHR ''.''"
  then show "lower_char c = CHR ''.''" by (simp add: lower_char_def)
qed

lemma lower_char_slash: "lower_char CHR ''/'' = CHR ''/''"
  by (simp add: lower_char_def)

lemma lower_keeps:
  assumes "lower_char c = c" and "c \<notin> set (lower s)"
  shows "c \<notin> set s"
proof
  assume "c \<in> set s"
  then have "lower_char c \<in> set (lower s)" by (simp add: lower_def)
  with assms show False by simp
qed

lemma extension_shape:
  assumes "lower e = CHR ''.'' # t" and "CHR ''.'' \<notin> set t" and "CHR ''/'' \<notin> set t"
  shows "\<exists>s. e = CHR ''.'' # s \<and> CHR ''.'' \<notin> set s \<and> CHR ''/'' \<notin> set s"
proof -
  from assms(1) obtain a s where e: "e = a # s" and a: "lower_char a = CHR ''.''"
    and s: "lower s = t"
    by (cases e) (auto simp: lower_def)
  from a have "a = CHR ''.''" by (simp add: lower_char_dot)
  moreover have "CHR ''.'' \<notin> set s"
    by (rule lower_keeps [of _ s]) (use assms(2) s in \<open>simp_all add: lower_char_dot\<close>)
  moreover have "CHR ''/'' \<notin> set s"
    by (rule lower_keeps [of _ s]) (use assms(3) s in \<open>simp_all add: lower_char_slash\<close>)
  ultimately show ?thesis using e by simp
qed

section \<open>The type resolver\<close>

lemma determine_file_type_ext:
  assumes "splitext p = (root, ext)"
  shows "determine_file_type p None =
           (if lower ext = ''.json'' then Inr ''json''
            else if lower ext = ''.yaml'' \<or> lower ext = ''.yml'' then Inr ''yaml''
            else Inl (ValueError (cannot_determine p)))"
  using assms by (simp add: determine_file_type_def truthy_def Let_def)

lemma known_extension_shape:
  assumes "lower e = ''.json'' \<or> lower e = ''.yaml'' \<or> lower e = ''.yml''"
  shows "\<exists>s. e = CHR ''.'' # s \<and> CHR ''.'' \<notin> set s \<and> CHR ''/'' \<notin> set s"
  using assms by (elim disjE) (rule extension_shape, assumption, simp, simp)+

text \<open>
  Claim C3. When a type is declared on the command line (\<open>arg_type\<close> is a string that is
  not empty, as \<open>json\<close> and \<open>yaml\<close> are), \<open>determine_file_type\<close> returns it, whatever the
  path and its extension are.
\<close>

theorem determine_file_type_declared:
  "t \<noteq> [] \<Longrightarrow> determine_file_type file_path (Some t) = Inr t"
  by (simp add: determine_file_type_def truthy_def)

theorem determine_file_type_declared_witness:
  "''yaml'' \<noteq> [] \<and> determine_file_type ''settings.json'' (Some ''yaml'') = Inr ''yaml''"
  using determine_file_type_declared [of "''yaml''" "''settings.json''"] by simp

text \<open>
  Claim C4. With no declared type, a path that ends in \<open>.json\<close>, in any mix of upper and
  lower case, after a file name that has a character other than a dot, is a JSON file,
  and one that ends in \<open>.yaml\<close> or \<open>.yml\<close> is a YAML file. With any other extension, with
  no dot in the last component of the path, or when the last dot of the last component
  has only dots before it (\<open>.json\<close>, \<open>..json\<close>, \<open>dir/...yaml\<close>), \<open>determine_file_type\<close>
  raises \<open>ValueError\<close>, and the message holds the path. In every case the answer depends on
  the path only through the lower-cased extension that \<open>os.path.splitext\<close> gives.
\<close>

theorem determine_file_type_inferred:
  "(named stem \<and> lower e = ''.json''
      \<longrightarrow> determine_file_type (stem @ e) None = Inr ''json'')
   \<and> (named stem \<and> (lower e = ''.yaml'' \<or> lower e = ''.yml'')
      \<longrightarrow> determine_file_type (stem @ e) None = Inr ''yaml'')
   \<and> (named stem \<and> CHR ''.'' \<notin> set s \<and> CHR ''/'' \<notin> set s
        \<and> lower (CHR ''.'' # s) \<notin> {''.json'', ''.yaml'', ''.yml''}
      \<longrightarrow> determine_file_type (stem @ CHR ''.'' # s) None
            = Inl (ValueError (cannot_determine (stem @ CHR ''.'' # s))))
   \<and> (\<not> named stem \<and> CHR ''.'' \<notin> set s \<and> CHR ''/'' \<notin> set s
      \<longrightarrow> determine_file_type (stem @ CHR ''.'' # s) None
            = Inl (ValueError (cannot_determine (stem @ CHR ''.'' # s))))
   \<and> (CHR ''.'' \<notin> set (last_component p)
      \<longrightarrow> determine_file_type p None = Inl (ValueError (cannot_determine p)))
   \<and> (lower (snd (splitext p)) \<notin> {''.json'', ''.yaml'', ''.yml''}
      \<longrightarrow> determine_file_type p None = Inl (ValueError (cannot_determine p)))
   \<and> cannot_determine p
       = ''Could not determine file type for '' @ p
           @ ''.  Specify with --config_type or --schema_type.''"
proof (intro conjI impI)
  assume a: "named stem \<and> lower e = ''.json''"
  then obtain s where s: "e = CHR ''.'' # s" "CHR ''.'' \<notin> set s" "CHR ''/'' \<notin> set s"
    using known_extension_shape [of e] by blast
  with a have "splitext (stem @ e) = (stem, e)" by (simp add: splitext_suffix)
  with a show "determine_file_type (stem @ e) None = Inr ''json''"
    by (simp add: determine_file_type_ext)
next
  assume a: "named stem \<and> (lower e = ''.yaml'' \<or> lower e = ''.yml'')"
  then obtain s where s: "e = CHR ''.'' # s" "CHR ''.'' \<notin> set s" "CHR ''/'' \<notin> set s"
    using known_extension_shape [of e] by blast
  with a have "splitext (stem @ e) = (stem, e)" by (simp add: splitext_suffix)
  with a show "determine_file_type (stem @ e) None = Inr ''yaml''"
    by (auto simp add: determine_file_type_ext)
next
  assume a: "named stem \<and> CHR ''.'' \<notin> set s \<and> CHR ''/'' \<notin> set s
        \<and> lower (CHR ''.'' # s) \<notin> {''.json'', ''.yaml'', ''.yml''}"
  then have "splitext (stem @ CHR ''.'' # s) = (stem, CHR ''.'' # s)"
    by (simp add: splitext_suffix)
  with a show "determine_file_type (stem @ CHR ''.'' # s) None
            = Inl (ValueError (cannot_determine (stem @ CHR ''.'' # s)))"
    by (simp add: determine_file_type_ext)
next
  assume "\<not> named stem \<and> CHR ''.'' \<notin> set s \<and> CHR ''/'' \<notin> set s"
  then have "splitext (stem @ CHR ''.'' # s) = (stem @ CHR ''.'' # s, [])"
    by (simp add: splitext_only_dots)
  then show "determine_file_type (stem @ CHR ''.'' # s) None
            = Inl (ValueError (cannot_determine (stem @ CHR ''.'' # s)))"
    by (simp add: determine_file_type_ext lower_def)
next
  assume "CHR ''.'' \<notin> set (last_component p)"
  then have "splitext p = (p, [])" by (rule splitext_no_dot)
  then show "determine_file_type p None = Inl (ValueError (cannot_determine p))"
    by (simp add: determine_file_type_ext lower_def)
next
  assume a: "lower (snd (splitext p)) \<notin> {''.json'', ''.yaml'', ''.yml''}"
  obtain root ext where sp: "splitext p = (root, ext)" by (cases "splitext p")
  with a show "determine_file_type p None = Inl (ValueError (cannot_determine p))"
    by (simp add: determine_file_type_ext)
next
  show "cannot_determine p
       = ''Could not determine file type for '' @ p
           @ ''.  Specify with --config_type or --schema_type.''"
    by (simp add: cannot_determine_def)
qed

lemma lower_examples:
  "lower ''.JSON'' = ''.json''" "lower ''.Yml'' = ''.yml''" "lower ''.txt'' = ''.txt''"
  by (simp_all add: lower_def lower_char_def char_of_eq_iff)

lemma named_examples:
  "named ''/etc/app/Config''" "named ''conf.d/site''" "named ''config''"
  "\<not> named ''.''" "\<not> named ''dir/..''"
  by (simp_all add: named_def last_component_def)

theorem determine_file_type_inferred_witness:
  "named ''/etc/app/Config'' \<and> lower ''.JSON'' = ''.json''
   \<and> determine_file_type ''/etc/app/Config.JSON'' None = Inr ''json''
   \<and> named ''conf.d/site'' \<and> lower ''.Yml'' = ''.yml''
   \<and> determine_file_type ''conf.d/site.Yml'' None = Inr ''yaml''
   \<and> named ''config'' \<and> lower ''.txt'' \<notin> {''.json'', ''.yaml'', ''.yml''}
   \<and> determine_file_type ''config.txt'' None
       = Inl (ValueError
           ''Could not determine file type for config.txt.  Specify with --config_type or --schema_type.'')
   \<and> CHR ''.'' \<notin> set (last_component ''conf.d/Makefile'')
   \<and> determine_file_type ''conf.d/Makefile'' None
       = Inl (ValueError (cannot_determine ''conf.d/Makefile''))
   \<and> \<not> named ''.''
   \<and> determine_file_type ''..json'' None = Inl (ValueError (cannot_determine ''..json''))
   \<and> \<not> named ''dir/..''
   \<and> determine_file_type ''dir/...yaml'' None
       = Inl (ValueError (cannot_determine ''dir/...yaml''))"
proof -
  note ex = lower_examples named_examples
  have 1: "determine_file_type ''/etc/app/Config.JSON'' None = Inr ''json''"
    using determine_file_type_inferred [of "''/etc/app/Config''" "''.JSON''"] ex by simp
  have 2: "determine_file_type ''conf.d/site.Yml'' None = Inr ''yaml''"
    using determine_file_type_inferred [of "''conf.d/site''" "''.Yml''"] ex by simp
  have 3: "determine_file_type ''config.txt'' None
       = Inl (ValueError
           ''Could not determine file type for config.txt.  Specify with --config_type or --schema_type.'')"
    using determine_file_type_inferred [of "''config''" _ "''txt''" "''config.txt''"] ex by simp
  have nd: "CHR ''.'' \<notin> set (last_component ''conf.d/Makefile'')"
    by (simp add: last_component_def)
  have 4: "determine_file_type ''conf.d/Makefile'' None
       = Inl (ValueError (cannot_determine ''conf.d/Makefile''))"
    using determine_file_type_inferred [of _ _ _ "''conf.d/Makefile''"] nd by simp
  have 5: "determine_file_type ''..json'' None = Inl (ValueError (cannot_determine ''..json''))"
    using determine_file_type_inferred [of "''.''" _ "''json''"] ex by simp
  have 6: "determine_file_type ''dir/...yaml'' None
       = Inl (ValueError (cannot_determine ''dir/...yaml''))"
    using determine_file_type_inferred [of "''dir/..''" _ "''yaml''"] ex by simp
  from 1 2 3 4 5 6 nd ex show ?thesis by simp
qed

text \<open>
  Claim C10. A path whose last component is a dot followed by a name with no further dot
  (\<open>.json\<close>, \<open>/home/u/.yaml\<close>) has the empty extension for \<open>os.path.splitext\<close>, so that with
  no declared type \<open>determine_file_type\<close> raises \<open>ValueError\<close> instead of inferring a type
  from the name.
\<close>

theorem determine_file_type_dotfile:
  assumes "d = [] \<or> last d = CHR ''/''"
    and "CHR ''.'' \<notin> set name" and "CHR ''/'' \<notin> set name"
  shows "snd (splitext (d @ CHR ''.'' # name)) = []
    \<and> determine_file_type (d @ CHR ''.'' # name) None
        = Inl (ValueError (cannot_determine (d @ CHR ''.'' # name)))"
proof -
  have "splitext (d @ CHR ''.'' # name) = (d @ CHR ''.'' # name, [])"
    using assms by (rule splitext_dotfile)
  then show ?thesis by (simp add: determine_file_type_ext lower_def)
qed

theorem determine_file_type_dotfile_witness:
  "determine_file_type ''.json'' None = Inl (ValueError (cannot_determine ''.json''))
   \<and> determine_file_type ''/home/u/.yaml'' None
       = Inl (ValueError (cannot_determine ''/home/u/.yaml''))
   \<and> determine_file_type ''conf/.yml'' None = Inl (ValueError (cannot_determine ''conf/.yml''))"
  using determine_file_type_dotfile [of "[]" "''json''"]
    determine_file_type_dotfile [of "''/home/u/''" "''yaml''"]
    determine_file_type_dotfile [of "''conf/''" "''yml''"]
  by simp

section \<open>Facts about the loaders and \<open>main\<close>\<close>

lemma sites_append: "sites (xs @ ys) = sites xs @ sites ys"
  by (induction xs rule: sites.induct) simp_all

lemma determine_file_type_raises:
  "determine_file_type p t = Inl x \<Longrightarrow> x = ValueError (cannot_determine p)"
  by (auto simp: determine_file_type_def Let_def split: if_splits)

lemma determine_file_type_choice:
  "choice t \<Longrightarrow> determine_file_type p t = Inr ft \<Longrightarrow> ft = ''json'' \<or> ft = ''yaml''"
  by (auto simp: determine_file_type_def choice_def truthy_def Let_def split: if_splits)

lemma determine_or_exit_ok:
  "determine_file_type p t = Inr ft \<Longrightarrow> determine_or_exit s p t = ([Enter s], Inr ft)"
  by (simp add: determine_or_exit_def call_def catch_def)

lemma determine_or_exit_fail:
  assumes "determine_file_type p t = Inl x"
  shows "determine_or_exit s p t = ([Enter s, Log ERROR (str x)], Inl (SystemExit 1 (Some x)))"
proof -
  from assms have "x = ValueError (cannot_determine p)" by (rule determine_file_type_raises)
  with assms show ?thesis
    by (simp add: determine_or_exit_def call_def catch_def bind_def log_def sys_exit_def)
qed

lemma load_json_sites: "sites (fst (load_json e p)) = []"
  by (simp add: load_json_def split: sum.splits exc.splits)

lemma load_yaml_sites: "sites (fst (load_yaml e p)) = []"
  by (simp add: load_yaml_def Let_def split: sum.splits exc.splits)

lemma validate_config_sites: "sites (fst (validate_config e c s)) = []"
  by (simp add: validate_config_def split: option.splits exc.splits)

lemma validate_config_result:
  "snd (validate_config e c s)
     = (case schema_validate e c s of None \<Rightarrow> Inr True | Some x \<Rightarrow> Inl x)"
  by (simp add: validate_config_def split: option.splits exc.splits)

lemma call_Inr: "snd m = Inr v \<Longrightarrow> call s m = (Enter s # fst m, Inr v)"
  by (cases m) (simp add: call_def)

lemma call_Inl: "snd m = Inl x \<Longrightarrow> call s m = (Enter s # fst m, Inl (Exc x))"
  by (cases m) (simp add: call_def)

lemma load_by_type_ok:
  assumes "ft = ''json'' \<or> ft = ''yaml''" and "loaded e ft p = Inr v"
  shows "\<exists>es. sites es = [] \<and> load_by_type s e ft p msg = (Enter s # es, Inr v)"
proof -
  from assms have
    "load_by_type s e ft p msg = (Enter s # fst (load_json e p), Inr v) \<and> ft = ''json''
     \<or> load_by_type s e ft p msg = (Enter s # fst (load_yaml e p), Inr v) \<and> ft = ''yaml''"
    by (auto simp: load_by_type_def loaded_def call_Inr)
  then show ?thesis using load_json_sites load_yaml_sites by blast
qed

lemma load_by_type_fail:
  assumes "ft = ''json'' \<or> ft = ''yaml''" and "loaded e ft p = Inl x"
  shows "\<exists>es. sites es = [] \<and> load_by_type s e ft p msg = (Enter s # es, Inl (Exc x))"
proof -
  from assms have
    "load_by_type s e ft p msg = (Enter s # fst (load_json e p), Inl (Exc x)) \<and> ft = ''json''
     \<or> load_by_type s e ft p msg = (Enter s # fst (load_yaml e p), Inl (Exc x)) \<and> ft = ''yaml''"
    by (auto simp: load_by_type_def loaded_def call_Inl)
  then show ?thesis using load_json_sites load_yaml_sites by blast
qed

lemma load_by_type_invalid:
  assumes "ft \<noteq> ''json''" and "ft \<noteq> ''yaml''"
  shows "load_by_type s e ft p msg = ([Log ERROR msg], Inl (SystemExit 1 None))"
  using assms by (simp add: load_by_type_def bind_def log_def sys_exit_def)

lemma validate_call_ok:
  assumes "schema_validate e c s = None"
  shows "\<exists>es. sites es = [] \<and> call Validate (validate_config e c s) = (Enter Validate # es, Inr True)"
proof -
  from assms have "snd (validate_config e c s) = Inr True" by (simp add: validate_config_result)
  then have "call Validate (validate_config e c s)
      = (Enter Validate # fst (validate_config e c s), Inr True)" by (rule call_Inr)
  then show ?thesis using validate_config_sites by blast
qed

lemma validate_call_fail:
  assumes "schema_validate e c s = Some x"
  shows "\<exists>es. sites es = []
    \<and> call Validate (validate_config e c s) = (Enter Validate # es, Inl (Exc x))"
proof -
  from assms have "snd (validate_config e c s) = Inl x" by (simp add: validate_config_result)
  then have "call Validate (validate_config e c s)
      = (Enter Validate # fst (validate_config e c s), Inl (Exc x))" by (rule call_Inl)
  then show ?thesis using validate_config_sites by blast
qed

lemma outer_handler_result:
  "\<exists>es. sites es = [] \<and> outer_handler x = Some (es, Inl (SystemExit 1 (Some x)))"
  by (cases x) (simp_all add: outer_handler_def sys_exit_def bind_def log_def)

lemma catch_outer:
  "\<exists>es'. sites es' = [] \<and> catch (es, Inl (Exc x)) outer_handler
      = (es @ es', Inl (SystemExit 1 (Some x)))"
proof -
  from outer_handler_result [of x] obtain es' where
    "sites es' = []" "outer_handler x = Some (es', Inl (SystemExit 1 (Some x)))" by blast
  then show ?thesis by (auto simp: catch_def)
qed

lemma catch_exit: "catch (es, Inl (SystemExit n c)) h = (es, Inl (SystemExit n c))"
  by (simp add: catch_def)

lemma bind_Inr: "bind (es, Inr v) f = (es @ fst (f v), snd (f v))"
  by (simp add: bind_def split: prod.splits)

lemma bind_Inl: "bind (es, Inl r) f = (es, Inl r)"
  by (simp add: bind_def)

text \<open>The run of \<open>main\<close>, one lemma for each place where it can end.\<close>

lemma main_config_type_fails:
  assumes "determine_file_type (config_file a) (config_type a) = Inl x"
  shows "sites (fst (main e a)) = [ResolveConfigType]
    \<and> snd (main e a) = Inl (SystemExit 1 (Some x))"
  using assms by (simp add: main_def determine_or_exit_fail bind_Inl catch_exit)

lemma main_schema_type_fails:
  assumes "determine_file_type (config_file a) (config_type a) = Inr tc"
    and "determine_file_type (schema_file a) (schema_type a) = Inl x"
  shows "sites (fst (main e a)) = [ResolveConfigType, ResolveSchemaType]
    \<and> snd (main e a) = Inl (SystemExit 1 (Some x))"
  using assms
  by (simp add: main_def determine_or_exit_fail determine_or_exit_ok bind_Inl bind_Inr catch_exit)

lemma main_config_type_invalid:
  assumes "determine_file_type (config_file a) (config_type a) = Inr tc"
    and "determine_file_type (schema_file a) (schema_type a) = Inr ts"
    and "tc \<noteq> ''json''" and "tc \<noteq> ''yaml''"
  shows "snd (main e a) = Inl (SystemExit 1 None)"
  using assms
  by (simp add: main_def determine_or_exit_ok load_by_type_invalid bind_Inl bind_Inr catch_exit)

lemma main_load_config_fails:
  assumes "determine_file_type (config_file a) (config_type a) = Inr tc"
    and "determine_file_type (schema_file a) (schema_type a) = Inr ts"
    and "tc = ''json'' \<or> tc = ''yaml''"
    and "loaded e tc (config_file a) = Inl x"
  shows "sites (fst (main e a)) = [ResolveConfigType, ResolveSchemaType, LoadConfig]
    \<and> snd (main e a) = Inl (SystemExit 1 (Some x))"
proof -
  from load_by_type_fail [OF assms(3,4)] obtain es where es: "sites es = []"
    "load_by_type LoadConfig e tc (config_file a) ''Invalid config file type.''
       = (Enter LoadConfig # es, Inl (Exc x))" by blast
  let ?pre = "[Enter ResolveConfigType, Enter ResolveSchemaType, Enter LoadConfig] @ es"
  from catch_outer [of ?pre x] obtain es' where es': "sites es' = []"
    "catch (?pre, Inl (Exc x)) outer_handler = (?pre @ es', Inl (SystemExit 1 (Some x)))"
    by blast
  have "main e a = catch (?pre, Inl (Exc x)) outer_handler"
    using assms(1,2) es(2) by (simp add: main_def determine_or_exit_ok bind_Inl bind_Inr)
  with es es' show ?thesis by (simp add: sites_append)
qed

lemma main_schema_type_invalid:
  assumes "determine_file_type (config_file a) (config_type a) = Inr tc"
    and "determine_file_type (schema_file a) (schema_type a) = Inr ts"
    and "tc = ''json'' \<or> tc = ''yaml''"
    and "loaded e tc (config_file a) = Inr c"
    and "ts \<noteq> ''json''" and "ts \<noteq> ''yaml''"
  shows "snd (main e a) = Inl (SystemExit 1 None)"
proof -
  from load_by_type_ok [OF assms(3,4)] obtain es where es: "sites es = []"
    "load_by_type LoadConfig e tc (config_file a) ''Invalid config file type.''
       = (Enter LoadConfig # es, Inr c)" by blast
  show ?thesis
    using assms(1,2,5,6) es(2)
    by (simp add: main_def determine_or_exit_ok load_by_type_invalid bind_Inl bind_Inr catch_exit)
qed

lemma main_load_schema_fails:
  assumes "determine_file_type (config_file a) (config_type a) = Inr tc"
    and "determine_file_type (schema_file a) (schema_type a) = Inr ts"
    and "tc = ''json'' \<or> tc = ''yaml''"
    and "loaded e tc (config_file a) = Inr c"
    and "ts = ''json'' \<or> ts = ''yaml''"
    and "loaded e ts (schema_file a) = Inl x"
  shows "sites (fst (main e a))
      = [ResolveConfigType, ResolveSchemaType, LoadConfig, LoadSchema]
    \<and> snd (main e a) = Inl (SystemExit 1 (Some x))"
proof -
  from load_by_type_ok [OF assms(3,4)] obtain es1 where es1: "sites es1 = []"
    "load_by_type LoadConfig e tc (config_file a) ''Invalid config file type.''
       = (Enter LoadConfig # es1, Inr c)" by blast
  from load_by_type_fail [OF assms(5,6)] obtain es2 where es2: "sites es2 = []"
    "load_by_type LoadSchema e ts (schema_file a) ''Invalid schema file type.''
       = (Enter LoadSchema # es2, Inl (Exc x))" by blast
  let ?pre = "[Enter ResolveConfigType, Enter ResolveSchemaType, Enter LoadConfig] @ es1
      @ Enter LoadSchema # es2"
  from catch_outer [of ?pre x] obtain es' where es': "sites es' = []"
    "catch (?pre, Inl (Exc x)) outer_handler = (?pre @ es', Inl (SystemExit 1 (Some x)))"
    by blast
  have "main e a = catch (?pre, Inl (Exc x)) outer_handler"
    using assms(1,2) es1(2) es2(2)
    by (simp add: main_def determine_or_exit_ok bind_Inl bind_Inr)
  with es1 es2 es' show ?thesis by (simp add: sites_append)
qed

lemma main_validate_fails:
  assumes "determine_file_type (config_file a) (config_type a) = Inr tc"
    and "determine_file_type (schema_file a) (schema_type a) = Inr ts"
    and "tc = ''json'' \<or> tc = ''yaml''"
    and "loaded e tc (config_file a) = Inr c"
    and "ts = ''json'' \<or> ts = ''yaml''"
    and "loaded e ts (schema_file a) = Inr s"
    and "schema_validate e c s = Some x"
  shows "sites (fst (main e a))
      = [ResolveConfigType, ResolveSchemaType, LoadConfig, LoadSchema, Validate]
    \<and> snd (main e a) = Inl (SystemExit 1 (Some x))"
proof -
  from load_by_type_ok [OF assms(3,4)] obtain es1 where es1: "sites es1 = []"
    "load_by_type LoadConfig e tc (config_file a) ''Invalid config file type.''
       = (Enter LoadConfig # es1, Inr c)" by blast
  from load_by_type_ok [OF assms(5,6)] obtain es2 where es2: "sites es2 = []"
    "load_by_type LoadSchema e ts (schema_file a) ''Invalid schema file type.''
       = (Enter LoadSchema # es2, Inr s)" by blast
  from validate_call_fail [OF assms(7)] obtain es3 where es3: "sites es3 = []"
    "call Validate (validate_config e c s) = (Enter Validate # es3, Inl (Exc x))" by blast
  let ?pre = "[Enter ResolveConfigType, Enter ResolveSchemaType, Enter LoadConfig] @ es1
      @ Enter LoadSchema # es2 @ Enter Validate # es3"
  from catch_outer [of ?pre x] obtain es' where es': "sites es' = []"
    "catch (?pre, Inl (Exc x)) outer_handler = (?pre @ es', Inl (SystemExit 1 (Some x)))"
    by blast
  have "main e a = catch (?pre, Inl (Exc x)) outer_handler"
    using assms(1,2) es1(2) es2(2) es3(2)
    by (simp add: main_def determine_or_exit_ok bind_Inl bind_Inr)
  with es1 es2 es3 es' show ?thesis by (simp add: sites_append)
qed

lemma main_succeeds:
  assumes "determine_file_type (config_file a) (config_type a) = Inr tc"
    and "determine_file_type (schema_file a) (schema_type a) = Inr ts"
    and "tc = ''json'' \<or> tc = ''yaml''"
    and "loaded e tc (config_file a) = Inr c"
    and "ts = ''json'' \<or> ts = ''yaml''"
    and "loaded e ts (schema_file a) = Inr s"
    and "schema_validate e c s = None"
  shows "sites (fst (main e a))
      = [ResolveConfigType, ResolveSchemaType, LoadConfig, LoadSchema, Validate]
    \<and> snd (main e a) = Inl (SystemExit 0 None)"
proof -
  from load_by_type_ok [OF assms(3,4)] obtain es1 where es1: "sites es1 = []"
    "load_by_type LoadConfig e tc (config_file a) ''Invalid config file type.''
       = (Enter LoadConfig # es1, Inr c)" by blast
  from load_by_type_ok [OF assms(5,6)] obtain es2 where es2: "sites es2 = []"
    "load_by_type LoadSchema e ts (schema_file a) ''Invalid schema file type.''
       = (Enter LoadSchema # es2, Inr s)" by blast
  from validate_call_ok [OF assms(7)] obtain es3 where es3: "sites es3 = []"
    "call Validate (validate_config e c s) = (Enter Validate # es3, Inr True)" by blast
  let ?pre = "[Enter ResolveConfigType, Enter ResolveSchemaType, Enter LoadConfig] @ es1
      @ Enter LoadSchema # es2 @ Enter Validate # es3 @ [Log INFO ''Validation successful.'']"
  have "main e a = catch (?pre, Inl (SystemExit 0 None)) outer_handler"
    using assms(1,2) es1(2) es2(2) es3(2)
    by (simp add: main_def determine_or_exit_ok bind_Inl bind_Inr log_def sys_exit_def)
  with es1 es2 es3 show ?thesis by (simp add: sites_append catch_exit)
qed

text \<open>What a loader returns or raises, by what \<open>open\<close> and the parser do.\<close>

lemma load_json_result:
  "snd (load_json e p) = (case open_file e p of Inl x \<Rightarrow> Inl x | Inr f \<Rightarrow> json_load e f)"
proof (cases "open_file e p")
  case (Inl x)
  then show ?thesis by (cases x) (simp_all add: load_json_def)
next
  case (Inr f)
  show ?thesis
  proof (cases "json_load e f")
    case (Inl x)
    with Inr show ?thesis by (cases x) (simp_all add: load_json_def)
  next
    case v: (Inr v)
    with Inr show ?thesis by (simp add: load_json_def)
  qed
qed

lemma load_yaml_result:
  "snd (load_yaml e p) = (case open_file e p of Inl x \<Rightarrow> Inl x | Inr f \<Rightarrow> yaml_load e Safe f)"
proof (cases "open_file e p")
  case (Inl x)
  then show ?thesis by (cases x) (simp_all add: load_yaml_def Let_def)
next
  case (Inr f)
  show ?thesis
  proof (cases "yaml_load e Safe f")
    case (Inl x)
    with Inr show ?thesis by (cases x) (simp_all add: load_yaml_def Let_def)
  next
    case v: (Inr v)
    with Inr show ?thesis by (simp add: load_yaml_def Let_def)
  qed
qed

lemma loaded_Inr:
  assumes "ft = ''json'' \<or> ft = ''yaml''"
  shows "loaded e ft p = Inr v \<longleftrightarrow>
    (\<exists>body. open_file e p = Inr body
      \<and> (ft = ''json'' \<and> json_load e body = Inr v
         \<or> ft = ''yaml'' \<and> yaml_load e Safe body = Inr v))"
  using assms
  by (cases "open_file e p")
    (auto simp: loaded_def load_json_result load_yaml_result)

section \<open>The example directory\<close>

lemma declared_resolves:
  "determine_file_type p (Some ''json'') = Inr ''json''"
  "determine_file_type p (Some ''yaml'') = Inr ''yaml''"
  by (simp_all add: determine_file_type_def truthy_def)

lemma example_loaded:
  "loaded example_env ''json'' ''app.json'' = Inr (PyList [PyInt 1])"
  "loaded example_env ''yaml'' ''schema.yaml'' = Inr (PyDict [(PyStr ''type'', PyStr ''array'')])"
  "loaded example_env ''json'' ''missing.json''
     = Inl (FileNotFoundError ''[Errno 2] No such file or directory: missing.json'')"
  by (simp_all add: loaded_def load_json_def load_yaml_def example_env_def example_open_def
      json_load_def yaml_load_def example_json_def example_yaml_def)

lemma example_validates:
  "schema_validate example_env (PyList [PyInt 1]) (PyDict [(PyStr ''type'', PyStr ''array'')])
     = None"
  by (simp add: example_env_def example_validate_def)

section \<open>The loaders\<close>

text \<open>
  C5. A loader fails with \<open>FileNotFoundError\<close>, logged as file not found with the path, when
  the file does not exist. Every other exception of \<open>open\<close> (the file exists and cannot be
  opened) is raised as it is, and the loader logs nothing. Text that the JSON parser
  rejects fails with its \<open>JSONDecodeError\<close>, and text that the YAML scanner or parser
  rejects with its \<open>ScannerError\<close> or \<open>ParserError\<close>, each logged as invalid JSON or YAML with
  the path and the message; any other exception of the parser is raised as it is, with
  nothing logged. Otherwise the loader returns what the parser built and logs nothing.
  Here \<open>x\<close> is raised in the \<open>try\<close> block either by \<open>open\<close> or, on the text \<open>body\<close> of the file,
  by the parser.
\<close>

theorem loader_outcomes:
  "(open_file e p = Inl (FileNotFoundError m)
      \<or> open_file e p = Inr body \<and> json_load e body = Inl (FileNotFoundError m)
      \<longrightarrow> load_json e p
          = ([Log ERROR (''File not found: '' @ p)], Inl (FileNotFoundError m)))
   \<and> (open_file e p = Inl (JSONDecodeError m)
      \<or> open_file e p = Inr body \<and> json_load e body = Inl (JSONDecodeError m)
      \<longrightarrow> load_json e p
          = ([Log ERROR (''Invalid JSON in '' @ p @ '': '' @ m)], Inl (JSONDecodeError m)))
   \<and> ((open_file e p = Inl x \<or> open_file e p = Inr body \<and> json_load e body = Inl x)
      \<and> (\<forall>m. x \<noteq> FileNotFoundError m) \<and> (\<forall>m. x \<noteq> JSONDecodeError m)
      \<longrightarrow> load_json e p = ([], Inl x))
   \<and> (open_file e p = Inr body \<and> json_load e body = Inr v \<longrightarrow> load_json e p = ([], Inr v))
   \<and> (open_file e p = Inl (FileNotFoundError m)
      \<or> open_file e p = Inr body \<and> yaml_load e Safe body = Inl (FileNotFoundError m)
      \<longrightarrow> load_yaml e p
          = ([Log ERROR (''File not found: '' @ p)], Inl (FileNotFoundError m)))
   \<and> (open_file e p = Inl (ScannerError m)
      \<or> open_file e p = Inr body \<and> yaml_load e Safe body = Inl (ScannerError m)
      \<longrightarrow> load_yaml e p
          = ([Log ERROR (''Invalid YAML in '' @ p @ '': '' @ m)], Inl (ScannerError m)))
   \<and> (open_file e p = Inl (ParserError m)
      \<or> open_file e p = Inr body \<and> yaml_load e Safe body = Inl (ParserError m)
      \<longrightarrow> load_yaml e p
          = ([Log ERROR (''Invalid YAML in '' @ p @ '': '' @ m)], Inl (ParserError m)))
   \<and> ((open_file e p = Inl x \<or> open_file e p = Inr body \<and> yaml_load e Safe body = Inl x)
      \<and> (\<forall>m. x \<noteq> FileNotFoundError m) \<and> (\<forall>m. x \<noteq> ScannerError m)
      \<and> (\<forall>m. x \<noteq> ParserError m)
      \<longrightarrow> load_yaml e p = ([], Inl x))
   \<and> (open_file e p = Inr body \<and> yaml_load e Safe body = Inr v
      \<longrightarrow> load_yaml e p = ([], Inr v))"
proof -
  have json: "load_json e p = ([], Inl x)"
    if "open_file e p = Inl x \<or> open_file e p = Inr body \<and> json_load e body = Inl x"
      and "\<forall>m. x \<noteq> FileNotFoundError m" and "\<forall>m. x \<noteq> JSONDecodeError m"
    using that by (cases x) (auto simp: load_json_def)
  have yaml: "load_yaml e p = ([], Inl x)"
    if "open_file e p = Inl x \<or> open_file e p = Inr body \<and> yaml_load e Safe body = Inl x"
      and "\<forall>m. x \<noteq> FileNotFoundError m" and "\<forall>m. x \<noteq> ScannerError m"
      and "\<forall>m. x \<noteq> ParserError m"
    using that by (cases x) (auto simp: load_yaml_def Let_def)
  have rest:
    "open_file e p = Inl (FileNotFoundError m)
      \<or> open_file e p = Inr body \<and> json_load e body = Inl (FileNotFoundError m)
      \<longrightarrow> load_json e p
          = ([Log ERROR (''File not found: '' @ p)], Inl (FileNotFoundError m))"
    "open_file e p = Inl (JSONDecodeError m)
      \<or> open_file e p = Inr body \<and> json_load e body = Inl (JSONDecodeError m)
      \<longrightarrow> load_json e p
          = ([Log ERROR (''Invalid JSON in '' @ p @ '': '' @ m)], Inl (JSONDecodeError m))"
    "open_file e p = Inr body \<and> json_load e body = Inr v \<longrightarrow> load_json e p = ([], Inr v)"
    "open_file e p = Inl (FileNotFoundError m)
      \<or> open_file e p = Inr body \<and> yaml_load e Safe body = Inl (FileNotFoundError m)
      \<longrightarrow> load_yaml e p
          = ([Log ERROR (''File not found: '' @ p)], Inl (FileNotFoundError m))"
    "open_file e p = Inl (ScannerError m)
      \<or> open_file e p = Inr body \<and> yaml_load e Safe body = Inl (ScannerError m)
      \<longrightarrow> load_yaml e p
          = ([Log ERROR (''Invalid YAML in '' @ p @ '': '' @ m)], Inl (ScannerError m))"
    "open_file e p = Inl (ParserError m)
      \<or> open_file e p = Inr body \<and> yaml_load e Safe body = Inl (ParserError m)
      \<longrightarrow> load_yaml e p
          = ([Log ERROR (''Invalid YAML in '' @ p @ '': '' @ m)], Inl (ParserError m))"
    "open_file e p = Inr body \<and> yaml_load e Safe body = Inr v
      \<longrightarrow> load_yaml e p = ([], Inr v)"
    by (auto simp: load_json_def load_yaml_def Let_def)
  from json yaml rest show ?thesis by blast
qed

theorem loader_outcomes_witness:
  "load_json example_env ''missing.json''
     = ([Log ERROR ''File not found: missing.json''],
        Inl (FileNotFoundError ''[Errno 2] No such file or directory: missing.json''))
   \<and> load_json example_env ''secret.json''
     = ([], Inl (PermissionError ''[Errno 13] Permission denied: secret.json''))
   \<and> load_json example_env ''schema.yaml''
     = ([Log ERROR
          ''Invalid JSON in schema.yaml: Expecting value: line 1 column 1 (char 0)''],
        Inl (JSONDecodeError ''Expecting value: line 1 column 1 (char 0)''))
   \<and> load_yaml example_env ''broken.yaml''
     = ([Log ERROR ''Invalid YAML in broken.yaml: mapping values are not allowed here''],
        Inl (ScannerError ''mapping values are not allowed here''))
   \<and> load_yaml example_env ''tagged.yaml''
     = ([], Inl (OtherError ''could not determine a constructor for the tag''))
   \<and> load_json example_env ''app.json'' = ([], Inr (PyList [PyInt 1]))
   \<and> load_yaml example_env ''app.json'' = ([], Inr (PyList [PyInt 1]))"
proof -
  note ev = example_env_def example_open_def example_json_def example_yaml_def
    json_load_def yaml_load_def
  have 1: "load_json example_env ''missing.json''
     = ([Log ERROR ''File not found: missing.json''],
        Inl (FileNotFoundError ''[Errno 2] No such file or directory: missing.json''))"
    using loader_outcomes [where e = example_env and p = "''missing.json''"
        and m = "''[Errno 2] No such file or directory: missing.json''"]
    by (simp add: ev)
  have 2: "load_json example_env ''secret.json''
     = ([], Inl (PermissionError ''[Errno 13] Permission denied: secret.json''))"
    using loader_outcomes [where e = example_env and p = "''secret.json''"
        and x = "PermissionError ''[Errno 13] Permission denied: secret.json''"]
    by (simp add: ev)
  have 3: "load_json example_env ''schema.yaml''
     = ([Log ERROR
          ''Invalid JSON in schema.yaml: Expecting value: line 1 column 1 (char 0)''],
        Inl (JSONDecodeError ''Expecting value: line 1 column 1 (char 0)''))"
    using loader_outcomes [where e = example_env and p = "''schema.yaml''"
        and m = "''Expecting value: line 1 column 1 (char 0)''" and body = "''type: array''"]
    by (simp add: ev)
  have 4: "load_yaml example_env ''broken.yaml''
     = ([Log ERROR ''Invalid YAML in broken.yaml: mapping values are not allowed here''],
        Inl (ScannerError ''mapping values are not allowed here''))"
    using loader_outcomes [where e = example_env and p = "''broken.yaml''"
        and m = "''mapping values are not allowed here''" and body = "''a: b: c''"]
    by (simp add: ev)
  have 5: "load_yaml example_env ''tagged.yaml''
     = ([], Inl (OtherError ''could not determine a constructor for the tag''))"
    using loader_outcomes [where e = example_env and p = "''tagged.yaml''"
        and x = "OtherError ''could not determine a constructor for the tag''"
        and body = "''!!python/object:builtins.object {}''"]
    by (simp add: ev)
  have 6: "load_json example_env ''app.json'' = ([], Inr (PyList [PyInt 1]))"
    "load_yaml example_env ''app.json'' = ([], Inr (PyList [PyInt 1]))"
    using loader_outcomes [where e = example_env and p = "''app.json''"
        and body = "''[1]''" and v = "PyList [PyInt 1]"]
    by (simp_all add: ev)
  from 1 2 3 4 5 6 show ?thesis by simp
qed

text \<open>
  Two files of the example directory on which a loader neither reports the file as not
  found, nor reports a parse error, nor returns a document. \<open>secret.json\<close> exists and may not
  be read: \<open>open\<close> raises \<open>PermissionError\<close>, which is not a \<open>FileNotFoundError\<close>, and
  \<open>load_json\<close> raises it on and logs nothing. \<open>tagged.yaml\<close> scans and parses, and the safe
  constructor has no constructor for its tag: the \<open>ConstructorError\<close> (an \<open>OtherError\<close> here)
  is neither a \<open>ScannerError\<close> nor a \<open>ParserError\<close>, and \<open>load_yaml\<close> raises it on and logs
  nothing.
\<close>

theorem load_json_unreadable:
  "open_file example_env ''secret.json''
     = Inl (PermissionError ''[Errno 13] Permission denied: secret.json'')
   \<and> load_json example_env ''secret.json''
     = ([], Inl (PermissionError ''[Errno 13] Permission denied: secret.json''))
   \<and> open_file example_env ''tagged.yaml'' = Inr ''!!python/object:builtins.object {}''
   \<and> load_yaml example_env ''tagged.yaml''
     = ([], Inl (OtherError ''could not determine a constructor for the tag''))"
  by (simp add: load_json_def load_yaml_def yaml_load_def example_env_def example_open_def
      example_yaml_def)

text \<open>
  C6. On an empty file the YAML loader returns \<open>None\<close> and logs nothing. The JSON loader
  fails with the \<open>JSONDecodeError\<close> of the parser, logged as invalid JSON with the path, and a
  run whose configuration is that file, read as JSON, ends with exit status 1.
\<close>

theorem load_empty:
  "(open_file e p = Inr [] \<longrightarrow>
       load_yaml e p = ([], Inr PyNone)
     \<and> load_json e p
        = ([Log ERROR (''Invalid JSON in '' @ p
              @ '': Expecting value: line 1 column 1 (char 0)'')],
           Inl (JSONDecodeError ''Expecting value: line 1 column 1 (char 0)'')))
   \<and> (open_file e (config_file a) = Inr []
      \<and> determine_file_type (config_file a) (config_type a) = Inr ''json''
      \<and> determine_file_type (schema_file a) (schema_type a) = Inr ts
      \<longrightarrow> snd (main e a)
          = Inl (SystemExit 1
              (Some (JSONDecodeError ''Expecting value: line 1 column 1 (char 0)'')))
        \<and> exit_status (main e a) = 1)"
proof (intro conjI impI)
  assume "open_file e p = Inr []"
  then show "load_yaml e p = ([], Inr PyNone)"
    by (simp add: load_yaml_def yaml_load_def Let_def)
next
  assume "open_file e p = Inr []"
  then show "load_json e p
        = ([Log ERROR (''Invalid JSON in '' @ p
              @ '': Expecting value: line 1 column 1 (char 0)'')],
           Inl (JSONDecodeError ''Expecting value: line 1 column 1 (char 0)''))"
    by (simp add: load_json_def json_load_def)
next
  assume a: "open_file e (config_file a) = Inr []
      \<and> determine_file_type (config_file a) (config_type a) = Inr ''json''
      \<and> determine_file_type (schema_file a) (schema_type a) = Inr ts"
  then have "loaded e ''json'' (config_file a)
      = Inl (JSONDecodeError ''Expecting value: line 1 column 1 (char 0)'')"
    by (simp add: loaded_def load_json_def json_load_def)
  with a have r: "snd (main e a)
      = Inl (SystemExit 1
          (Some (JSONDecodeError ''Expecting value: line 1 column 1 (char 0)'')))"
    using main_load_config_fails [of a "''json''" ts e] by simp
  then show "snd (main e a)
      = Inl (SystemExit 1
          (Some (JSONDecodeError ''Expecting value: line 1 column 1 (char 0)'')))" .
  from r show "exit_status (main e a) = 1" by (simp add: exit_status_def)
qed

theorem load_empty_witness:
  "load_yaml example_env ''empty'' = ([], Inr PyNone)
   \<and> exit_status (main example_env (example_args ''empty'' ''schema.yaml'')) = 1"
  using load_empty [of example_env "''empty''" "example_args ''empty'' ''schema.yaml''"
      "''yaml''"]
  by (simp add: example_env_def example_open_def example_args_def declared_resolves)

text \<open>
  The JSON loader on the empty file of the example directory: it returns no value, it
  raises \<open>JSONDecodeError\<close>.
\<close>

theorem load_json_empty:
  "open_file example_env ''empty'' = Inr []
   \<and> load_json example_env ''empty''
     = ([Log ERROR ''Invalid JSON in empty: Expecting value: line 1 column 1 (char 0)''],
        Inl (JSONDecodeError ''Expecting value: line 1 column 1 (char 0)''))"
  by (simp add: load_json_def json_load_def example_env_def example_open_def)

section \<open>The driver\<close>

lemma main_exit_status_loaded:
  "exit_status (main e a) =
     (if (\<exists>tc ts c s.
            determine_file_type (config_file a) (config_type a) = Inr tc
          \<and> determine_file_type (schema_file a) (schema_type a) = Inr ts
          \<and> (tc = ''json'' \<or> tc = ''yaml'') \<and> (ts = ''json'' \<or> ts = ''yaml'')
          \<and> loaded e tc (config_file a) = Inr c
          \<and> loaded e ts (schema_file a) = Inr s
          \<and> schema_validate e c s = None)
      then 0 else 1)"
proof -
  let ?valid = "\<exists>tc ts c s.
            determine_file_type (config_file a) (config_type a) = Inr tc
          \<and> determine_file_type (schema_file a) (schema_type a) = Inr ts
          \<and> (tc = ''json'' \<or> tc = ''yaml'') \<and> (ts = ''json'' \<or> ts = ''yaml'')
          \<and> loaded e tc (config_file a) = Inr c
          \<and> loaded e ts (schema_file a) = Inr s
          \<and> schema_validate e c s = None"
  have pass: "exit_status (main e a) = 0" if ?valid
  proof -
    from that obtain tc ts c s where
      "determine_file_type (config_file a) (config_type a) = Inr tc"
      "determine_file_type (schema_file a) (schema_type a) = Inr ts"
      "tc = ''json'' \<or> tc = ''yaml''" "loaded e tc (config_file a) = Inr c"
      "ts = ''json'' \<or> ts = ''yaml''" "loaded e ts (schema_file a) = Inr s"
      "schema_validate e c s = None" by blast
    then have "snd (main e a) = Inl (SystemExit 0 None)" by (simp add: main_succeeds)
    then show ?thesis by (simp add: exit_status_def)
  qed
  have fail: "exit_status (main e a) = 1" if n: "\<not> ?valid"
  proof (cases "determine_file_type (config_file a) (config_type a)")
    case (Inl x)
    then have "snd (main e a) = Inl (SystemExit 1 (Some x))"
      by (simp add: main_config_type_fails)
    then show ?thesis by (simp add: exit_status_def)
  next
    case tc: (Inr tc)
    show ?thesis
    proof (cases "determine_file_type (schema_file a) (schema_type a)")
      case (Inl x)
      with tc have "snd (main e a) = Inl (SystemExit 1 (Some x))"
        by (simp add: main_schema_type_fails)
      then show ?thesis by (simp add: exit_status_def)
    next
      case ts: (Inr ts)
      show ?thesis
      proof (cases "tc = ''json'' \<or> tc = ''yaml''")
        case False
        with tc ts have "snd (main e a) = Inl (SystemExit 1 None)"
          by (simp add: main_config_type_invalid)
        then show ?thesis by (simp add: exit_status_def)
      next
        case ctc: True
        show ?thesis
        proof (cases "loaded e tc (config_file a)")
          case (Inl x)
          from main_load_config_fails [OF tc ts ctc Inl]
          show ?thesis by (simp add: exit_status_def)
        next
          case c: (Inr c)
          show ?thesis
          proof (cases "ts = ''json'' \<or> ts = ''yaml''")
            case False
            then have "ts \<noteq> ''json''" "ts \<noteq> ''yaml''" by simp_all
            from main_schema_type_invalid [OF tc ts ctc c this]
            show ?thesis by (simp add: exit_status_def)
          next
            case cts: True
            show ?thesis
            proof (cases "loaded e ts (schema_file a)")
              case (Inl x)
              from main_load_schema_fails [OF tc ts ctc c cts Inl]
              show ?thesis by (simp add: exit_status_def)
            next
              case s: (Inr s)
              show ?thesis
              proof (cases "schema_validate e c s")
                case None
                with tc ts ctc c cts s n show ?thesis by blast
              next
                case (Some x)
                from main_validate_fails [OF tc ts ctc c cts s Some]
                show ?thesis by (simp add: exit_status_def)
              qed
            qed
          qed
        qed
      qed
    qed
  qed
  from pass fail show ?thesis by (cases ?valid) simp_all
qed

lemma example_inferred:
  "determine_file_type ''app.json'' None = Inr ''json''"
  "determine_file_type ''missing.json'' None = Inr ''json''"
  "determine_file_type ''schema.yaml'' None = Inr ''yaml''"
  "determine_file_type ''broken.yaml'' None = Inr ''yaml''"
proof -
  have l: "lower ''.json'' = ''.json''" "lower ''.yaml'' = ''.yaml''"
    by (simp_all add: lower_def lower_char_def char_of_eq_iff)
  have "splitext (''app'' @ CHR ''.'' # ''json'') = (''app'', CHR ''.'' # ''json'')"
    by (rule splitext_suffix) (simp_all add: named_def last_component_def)
  then show "determine_file_type ''app.json'' None = Inr ''json''"
    using l by (simp add: determine_file_type_ext)
  have "splitext (''missing'' @ CHR ''.'' # ''json'') = (''missing'', CHR ''.'' # ''json'')"
    by (rule splitext_suffix) (simp_all add: named_def last_component_def)
  then show "determine_file_type ''missing.json'' None = Inr ''json''"
    using l by (simp add: determine_file_type_ext)
  have "splitext (''schema'' @ CHR ''.'' # ''yaml'') = (''schema'', CHR ''.'' # ''yaml'')"
    by (rule splitext_suffix) (simp_all add: named_def last_component_def)
  then show "determine_file_type ''schema.yaml'' None = Inr ''yaml''"
    using l by (simp add: determine_file_type_ext)
  have "splitext (''broken'' @ CHR ''.'' # ''yaml'') = (''broken'', CHR ''.'' # ''yaml'')"
    by (rule splitext_suffix) (simp_all add: named_def last_component_def)
  then show "determine_file_type ''broken.yaml'' None = Inr ''yaml''"
    using l by (simp add: determine_file_type_ext)
qed

lemma example_env_fields:
  "open_file example_env = example_open" "json_parser example_env = example_json"
  "yaml_parser example_env = example_yaml" "schema_validate example_env = example_validate"
  by (simp_all add: example_env_def)

lemma example_parse_args:
  "parse_args example_env [''app.json'', ''schema.yaml'']
     = Inr \<lparr>config_file = ''app.json'', schema_file = ''schema.yaml'',
             config_type = None, schema_type = None\<rparr>"
  "parse_args example_env [''missing.json'', ''schema.yaml'']
     = Inr \<lparr>config_file = ''missing.json'', schema_file = ''schema.yaml'',
             config_type = None, schema_type = None\<rparr>"
  "parse_args example_env [''broken.yaml'', ''schema.yaml'']
     = Inr \<lparr>config_file = ''broken.yaml'', schema_file = ''schema.yaml'',
             config_type = None, schema_type = None\<rparr>"
  by (simp_all add: parse_args_def positional_def)

text \<open>
  C2. A run of \<open>main\<close> on a command line that \<open>parse_args\<close> accepts ends with exit status 0
  exactly when both file types resolve, both files open and parse with the loader of their
  type, and the validator raises nothing; every other such run, whatever fails in it, ends
  with exit status 1. A run that \<open>parse_args\<close> ends itself enters no step and logs nothing,
  and its exit status is that of \<open>parse_args\<close>: 0 for \<open>-h\<close> or \<open>--help\<close>, 2 for a command line
  with no argument.
\<close>

theorem main_exit_status:
  "(parse_args e argv = Inr a \<longrightarrow>
      exit_status (main_from_argv e argv) =
        (if (\<exists>tc ts cbody sbody c s.
            determine_file_type (config_file a) (config_type a) = Inr tc
          \<and> determine_file_type (schema_file a) (schema_type a) = Inr ts
          \<and> open_file e (config_file a) = Inr cbody
          \<and> (tc = ''json'' \<and> json_load e cbody = Inr c
             \<or> tc = ''yaml'' \<and> yaml_load e Safe cbody = Inr c)
          \<and> open_file e (schema_file a) = Inr sbody
          \<and> (ts = ''json'' \<and> json_load e sbody = Inr s
             \<or> ts = ''yaml'' \<and> yaml_load e Safe sbody = Inr s)
          \<and> schema_validate e c s = None)
         then 0 else 1))
   \<and> (parse_args e argv = Inl code \<longrightarrow>
        main_from_argv e argv = ([], Inl (SystemExit code None))
      \<and> exit_status (main_from_argv e argv) = code)
   \<and> parse_args e [''-h''] = Inl 0 \<and> parse_args e [''--help''] = Inl 0
   \<and> parse_args e [] = Inl 2"
proof -
  let ?valid = "\<exists>tc ts cbody sbody c s.
            determine_file_type (config_file a) (config_type a) = Inr tc
          \<and> determine_file_type (schema_file a) (schema_type a) = Inr ts
          \<and> open_file e (config_file a) = Inr cbody
          \<and> (tc = ''json'' \<and> json_load e cbody = Inr c
             \<or> tc = ''yaml'' \<and> yaml_load e Safe cbody = Inr c)
          \<and> open_file e (schema_file a) = Inr sbody
          \<and> (ts = ''json'' \<and> json_load e sbody = Inr s
             \<or> ts = ''yaml'' \<and> yaml_load e Safe sbody = Inr s)
          \<and> schema_validate e c s = None"
  let ?loaded = "\<exists>tc ts c s.
            determine_file_type (config_file a) (config_type a) = Inr tc
          \<and> determine_file_type (schema_file a) (schema_type a) = Inr ts
          \<and> (tc = ''json'' \<or> tc = ''yaml'') \<and> (ts = ''json'' \<or> ts = ''yaml'')
          \<and> loaded e tc (config_file a) = Inr c
          \<and> loaded e ts (schema_file a) = Inr s
          \<and> schema_validate e c s = None"
  have "?valid \<longleftrightarrow> ?loaded"
  proof
    assume ?valid
    then obtain tc ts cbody sbody c s where v:
      "determine_file_type (config_file a) (config_type a) = Inr tc"
      "determine_file_type (schema_file a) (schema_type a) = Inr ts"
      "open_file e (config_file a) = Inr cbody"
      "tc = ''json'' \<and> json_load e cbody = Inr c \<or> tc = ''yaml'' \<and> yaml_load e Safe cbody = Inr c"
      "open_file e (schema_file a) = Inr sbody"
      "ts = ''json'' \<and> json_load e sbody = Inr s \<or> ts = ''yaml'' \<and> yaml_load e Safe sbody = Inr s"
      "schema_validate e c s = None" by blast
    from v(4) have ctc: "tc = ''json'' \<or> tc = ''yaml''" by blast
    from v(6) have cts: "ts = ''json'' \<or> ts = ''yaml''" by blast
    from v(3,4) have c: "loaded e tc (config_file a) = Inr c"
      unfolding loaded_Inr [OF ctc] by blast
    from v(5,6) have s: "loaded e ts (schema_file a) = Inr s"
      unfolding loaded_Inr [OF cts] by blast
    from v(1,2,7) ctc cts c s show ?loaded by blast
  next
    assume ?loaded
    then obtain tc ts c s where v:
      "determine_file_type (config_file a) (config_type a) = Inr tc"
      "determine_file_type (schema_file a) (schema_type a) = Inr ts"
      "tc = ''json'' \<or> tc = ''yaml''" "ts = ''json'' \<or> ts = ''yaml''"
      "loaded e tc (config_file a) = Inr c" "loaded e ts (schema_file a) = Inr s"
      "schema_validate e c s = None" by blast
    from v(5) obtain cbody where c: "open_file e (config_file a) = Inr cbody"
      "tc = ''json'' \<and> json_load e cbody = Inr c \<or> tc = ''yaml'' \<and> yaml_load e Safe cbody = Inr c"
      unfolding loaded_Inr [OF v(3)] by blast
    from v(6) obtain sbody where s: "open_file e (schema_file a) = Inr sbody"
      "ts = ''json'' \<and> json_load e sbody = Inr s \<or> ts = ''yaml'' \<and> yaml_load e Safe sbody = Inr s"
      unfolding loaded_Inr [OF v(4)] by blast
    from v(1,2,7) c s show ?valid by blast
  qed
  then have run: "exit_status (main e a) = (if ?valid then 0 else 1)"
    using main_exit_status_loaded [of e a] by simp
  have 1: "parse_args e argv = Inr a \<longrightarrow>
      exit_status (main_from_argv e argv) = (if ?valid then 0 else 1)"
    using run by (simp add: main_from_argv_def)
  have 2: "parse_args e argv = Inl code \<longrightarrow>
        main_from_argv e argv = ([], Inl (SystemExit code None))
      \<and> exit_status (main_from_argv e argv) = code"
    by (simp add: main_from_argv_def sys_exit_def exit_status_def)
  have 3: "parse_args e [''-h''] = Inl 0" "parse_args e [''--help''] = Inl 0"
    "parse_args e [] = Inl 2"
    by (simp_all add: parse_args_def)
  from 1 2 3 show ?thesis by (intro conjI)
qed

theorem main_exit_status_witness:
  "exit_status (main_from_argv example_env [''app.json'', ''schema.yaml'']) = 0
   \<and> exit_status (main_from_argv example_env [''missing.json'', ''schema.yaml'']) = 1
   \<and> exit_status (main_from_argv example_env [''broken.yaml'', ''schema.yaml'']) = 1"
proof -
  note ev = example_env_fields example_open_def example_json_def example_yaml_def
    example_validate_def json_load_def yaml_load_def example_inferred example_parse_args
  have 1: "exit_status (main_from_argv example_env [''app.json'', ''schema.yaml'']) = 0"
    using main_exit_status [where e = example_env and argv = "[''app.json'', ''schema.yaml'']"
        and a = "\<lparr>config_file = ''app.json'', schema_file = ''schema.yaml'',
             config_type = None, schema_type = None\<rparr>"]
    by (simp add: ev)
  have 2: "exit_status (main_from_argv example_env [''missing.json'', ''schema.yaml'']) = 1"
    using main_exit_status [where e = example_env
        and argv = "[''missing.json'', ''schema.yaml'']"
        and a = "\<lparr>config_file = ''missing.json'', schema_file = ''schema.yaml'',
             config_type = None, schema_type = None\<rparr>"]
    by (simp add: ev)
  have 3: "exit_status (main_from_argv example_env [''broken.yaml'', ''schema.yaml'']) = 1"
    using main_exit_status [where e = example_env
        and argv = "[''broken.yaml'', ''schema.yaml'']"
        and a = "\<lparr>config_file = ''broken.yaml'', schema_file = ''schema.yaml'',
             config_type = None, schema_type = None\<rparr>"]
    by (simp add: ev)
  from 1 2 3 show ?thesis by simp
qed

text \<open>
  The command line \<open>--help\<close>: the run ends in \<open>parse_args\<close> with exit status 0, and no file is
  read and nothing is validated. The command line with no argument: the run fails in
  \<open>parse_args\<close> and ends with exit status 2.
\<close>

theorem main_help_and_usage:
  "exit_status (main_from_argv example_env [''--help'']) = 0
   \<and> main_from_argv example_env [''--help''] = ([], Inl (SystemExit 0 None))
   \<and> exit_status (main_from_argv example_env []) = 2"
  by (simp add: main_from_argv_def parse_args_def sys_exit_def exit_status_def)

text \<open>
  C9. A run of \<open>main\<close> on arguments that argparse admits enters the steps in the order
  resolve the configuration type, resolve the schema type, load the configuration, load the
  schema, validate, each at most once, and stops at the first step that raises: the steps
  entered are then those up to that one, and the run ends with exit status 1 from the
  handler of the exception that step raised. When no step raises, all five are entered and
  the run ends with exit status 0.
\<close>

theorem main_steps:
  assumes "wf_args a"
  shows
    "(\<exists>x. determine_file_type (config_file a) (config_type a) = Inl x
        \<and> sites (fst (main e a)) = [ResolveConfigType]
        \<and> snd (main e a) = Inl (SystemExit 1 (Some x)))
     \<or> (\<exists>tc x. determine_file_type (config_file a) (config_type a) = Inr tc
        \<and> determine_file_type (schema_file a) (schema_type a) = Inl x
        \<and> sites (fst (main e a)) = [ResolveConfigType, ResolveSchemaType]
        \<and> snd (main e a) = Inl (SystemExit 1 (Some x)))
     \<or> (\<exists>tc ts x. determine_file_type (config_file a) (config_type a) = Inr tc
        \<and> determine_file_type (schema_file a) (schema_type a) = Inr ts
        \<and> loaded e tc (config_file a) = Inl x
        \<and> sites (fst (main e a)) = [ResolveConfigType, ResolveSchemaType, LoadConfig]
        \<and> snd (main e a) = Inl (SystemExit 1 (Some x)))
     \<or> (\<exists>tc ts c x. determine_file_type (config_file a) (config_type a) = Inr tc
        \<and> determine_file_type (schema_file a) (schema_type a) = Inr ts
        \<and> loaded e tc (config_file a) = Inr c
        \<and> loaded e ts (schema_file a) = Inl x
        \<and> sites (fst (main e a))
            = [ResolveConfigType, ResolveSchemaType, LoadConfig, LoadSchema]
        \<and> snd (main e a) = Inl (SystemExit 1 (Some x)))
     \<or> (\<exists>tc ts c s x. determine_file_type (config_file a) (config_type a) = Inr tc
        \<and> determine_file_type (schema_file a) (schema_type a) = Inr ts
        \<and> loaded e tc (config_file a) = Inr c
        \<and> loaded e ts (schema_file a) = Inr s
        \<and> schema_validate e c s = Some x
        \<and> sites (fst (main e a))
            = [ResolveConfigType, ResolveSchemaType, LoadConfig, LoadSchema, Validate]
        \<and> snd (main e a) = Inl (SystemExit 1 (Some x)))
     \<or> (\<exists>tc ts c s. determine_file_type (config_file a) (config_type a) = Inr tc
        \<and> determine_file_type (schema_file a) (schema_type a) = Inr ts
        \<and> loaded e tc (config_file a) = Inr c
        \<and> loaded e ts (schema_file a) = Inr s
        \<and> schema_validate e c s = None
        \<and> sites (fst (main e a))
            = [ResolveConfigType, ResolveSchemaType, LoadConfig, LoadSchema, Validate]
        \<and> snd (main e a) = Inl (SystemExit 0 None))"
proof (cases "determine_file_type (config_file a) (config_type a)")
  case (Inl x)
  from main_config_type_fails [OF Inl, of e] Inl show ?thesis by blast
next
  case tc: (Inr tc)
  have ctc: "tc = ''json'' \<or> tc = ''yaml''"
    using assms tc by (auto simp: wf_args_def dest: determine_file_type_choice)
  show ?thesis
  proof (cases "determine_file_type (schema_file a) (schema_type a)")
    case (Inl x)
    from main_schema_type_fails [OF tc Inl, of e] tc Inl show ?thesis by blast
  next
    case ts: (Inr ts)
    have cts: "ts = ''json'' \<or> ts = ''yaml''"
      using assms ts by (auto simp: wf_args_def dest: determine_file_type_choice)
    show ?thesis
    proof (cases "loaded e tc (config_file a)")
      case (Inl x)
      from main_load_config_fails [OF tc ts ctc Inl] tc ts Inl show ?thesis by blast
    next
      case c: (Inr c)
      show ?thesis
      proof (cases "loaded e ts (schema_file a)")
        case (Inl x)
        from main_load_schema_fails [OF tc ts ctc c cts Inl] tc ts c Inl
        show ?thesis by blast
      next
        case s: (Inr s)
        show ?thesis
        proof (cases "schema_validate e c s")
          case None
          from main_succeeds [OF tc ts ctc c cts s None] tc ts c s None
          show ?thesis by blast
        next
          case (Some x)
          from main_validate_fails [OF tc ts ctc c cts s Some] tc ts c s Some
          show ?thesis by blast
        qed
      qed
    qed
  qed
qed

theorem main_steps_witness:
  "wf_args (example_args ''missing.json'' ''schema.yaml'')
   \<and> sites (fst (main example_env (example_args ''missing.json'' ''schema.yaml'')))
       = [ResolveConfigType, ResolveSchemaType, LoadConfig]
   \<and> snd (main example_env (example_args ''missing.json'' ''schema.yaml''))
       = Inl (SystemExit 1
           (Some (FileNotFoundError ''[Errno 2] No such file or directory: missing.json'')))"
  using main_steps [of "example_args ''missing.json'' ''schema.yaml''" example_env]
  by (simp add: example_args_def wf_args_def choice_def declared_resolves example_loaded)

end
